theory Spec2Isabelle
  imports Complex_Main "HOL-Library.Word"
begin

section \<open>Common conventions\<close>

text \<open>
  The development embeds the decoding and spectrum routines of
  \<^verbatim>\<open>src/python/particle_distribution.py\<close> and
  \<^verbatim>\<open>src/python/spectrum_fitting.py\<close>.

  Numbers held in NumPy float arrays are modelled as \<^typ>\<open>real\<close>. Where a result
  depends on a comparison of computed numbers (the box test and the bins of the velocity
  histograms, the peak of the smoothed flux), the floating-point operations are
  parameters of the model and may round; elsewhere every arithmetic operation is the
  exact one. Python exceptions are
  values of the type \<open>error\<close>; a function that can raise returns \<open>error + 'a\<close> with
  \<open>Inl\<close> for the exception. One-dimensional arrays are lists.
\<close>

datatype error =
    IOError             \<comment> \<open>\<^verbatim>\<open>open\<close> failed (Python 2 raises IOError for a missing file)\<close>
  | ValueError
  | IndexError
  | TypeError
  | ZeroDivisionError
  | FitError            \<comment> \<open>any exception raised inside scipy's \<^verbatim>\<open>curve_fit\<close>\<close>

text \<open>Sequencing of two computations that can raise: the first exception propagates.\<close>

definition ebind :: "error + 'a \<Rightarrow> ('a \<Rightarrow> error + 'b) \<Rightarrow> error + 'b" where
  "ebind m k = (case m of Inl e \<Rightarrow> Inl e | Inr x \<Rightarrow> k x)"

section \<open>Accumulated particle number and energy\<close>

text \<open>Python's builtin \<^verbatim>\<open>max\<close> and \<^verbatim>\<open>min\<close> on a sequence: ValueError on an empty one.\<close>

fun py_max :: "real list \<Rightarrow> error + real" where
  "py_max [] = Inl ValueError"
| "py_max (x # xs) = Inr (fold max xs x)"

fun py_min :: "real list \<Rightarrow> error + real" where
  "py_min [] = Inl ValueError"
| "py_min (x # xs) = Inr (fold min xs x)"

text \<open>\<^verbatim>\<open>math.log10\<close>: ValueError (math domain error) outside the positive reals.\<close>

definition math_log10 :: "real \<Rightarrow> error + real" where
  "math_log10 x = (if x \<le> 0 then Inl ValueError else Inr (log 10 x))"

text \<open>
  The body of \<^verbatim>\<open>for i in range(1, nbins)\<close> of \<^verbatim>\<open>accumulated_particle_info\<close>, run over
  the list of indices. The state is the pair of arrays \<^verbatim>\<open>nacc_ene\<close>, \<^verbatim>\<open>eacc_ene\<close>.
  \<^verbatim>\<open>f[i]\<close> is always in range (\<open>i < nbins\<close>); \<^verbatim>\<open>ene[i]\<close> raises IndexError when
  \<^verbatim>\<open>ene\<close> is shorter than \<^verbatim>\<open>f\<close>.
\<close>

fun acc_loop ::
  "real list \<Rightarrow> real list \<Rightarrow> nat list \<Rightarrow> real list \<times> real list \<Rightarrow> error + (real list \<times> real list)"
where
  "acc_loop ene f [] s = Inr s"
| "acc_loop ene f (i # js) (nacc, eacc) =
     (if length ene \<le> i then Inl IndexError
      else
        let nacc1 = nacc[i := f ! i * (ene ! i + ene ! (i - 1)) * 0.5 + nacc ! (i - 1)];
            eacc1 = eacc[i := 0.5 * f ! i * (ene ! i - ene ! (i - 1)) * (ene ! i + ene ! (i - 1))];
            eacc2 = eacc1[i := eacc1 ! i + eacc1 ! (i - 1)]
        in acc_loop ene f js (nacc1, eacc2))"

definition accumulated_particle_info ::
  "real list \<Rightarrow> real list \<Rightarrow> error + (real list \<times> real list)"
where
  "accumulated_particle_info ene f =
     (let nbins = length f in
      ebind (py_max ene) (\<lambda>emax.
      ebind (math_log10 emax) (\<lambda>lmax.
      ebind (py_min ene) (\<lambda>emin.
      ebind (math_log10 emin) (\<lambda>lmin.
      if nbins = 0 then Inl ZeroDivisionError
      else
        let dlogE = (lmax - lmin) / real nbins;
            nacc0 = (replicate nbins 0)[0 := f ! 0 * ene ! 0];
            eacc0 = (replicate nbins 0)[0 := 0.5 * f ! 0 * (ene ! 0)\<^sup>2]
        in ebind (acc_loop ene f [1..<nbins] (nacc0, eacc0)) (\<lambda>(nacc, eacc).
             Inr (map (\<lambda>x. x * dlogE) nacc, map (\<lambda>x. x * dlogE) eacc)))))))"

text \<open>
  Names for the quantities the statements about \<^verbatim>\<open>accumulated_particle_info\<close> use:
  the two increments added at bin \<open>i\<close> and the logarithmic bin width.
\<close>

definition nterm :: "real list \<Rightarrow> real list \<Rightarrow> nat \<Rightarrow> real" where
  "nterm ene f i = f ! i * (ene ! i + ene ! (i - 1)) * 0.5"

definition eterm :: "real list \<Rightarrow> real list \<Rightarrow> nat \<Rightarrow> real" where
  "eterm ene f i = 0.5 * f ! i * (ene ! i - ene ! (i - 1)) * (ene ! i + ene ! (i - 1))"

definition dlogE_of :: "real list \<Rightarrow> nat \<Rightarrow> real" where
  "dlogE_of ene n = (log 10 (Max (set ene)) - log 10 (Min (set ene))) / real n"

section \<open>Files and the energy-spectrum reader\<close>

text \<open>
  A file system maps a file name to the bytes of the file; \<open>None\<close> is a name that
  \<^verbatim>\<open>open(fname, 'r')\<close> cannot open. Text written by \<^verbatim>\<open>print\<close> is not part of the model.
\<close>

type_synonym byte = "8 word"
type_synonym filesystem = "string \<Rightarrow> byte list option"

text \<open>
  The value of \<^verbatim>\<open>np.genfromtxt\<close>: a one-dimensional array (a file with at most one row of
  numbers) or a two-dimensional one, held as its list of rows. The parser itself belongs
  to NumPy; the functions below take it as the parameter \<open>genfromtxt\<close>.
\<close>

datatype ndarray = Array1 "real list" | Array2 "real list list"

type_synonym parser = "byte list \<Rightarrow> error + ndarray"

text \<open>
  \<^verbatim>\<open>read_spectrum_data\<close>. The \<^verbatim>\<open>except IOError\<close> branch prints \<^verbatim>\<open>cannot open\<close> and falls off
  the end of the function, so the call returns Python's \<^verbatim>\<open>None\<close>: the result
  \<open>Inr None\<close>. The \<^verbatim>\<open>else\<close> branch parses the file; an exception of the parser is not
  caught.
\<close>

definition read_spectrum_data :: "parser \<Rightarrow> filesystem \<Rightarrow> string \<Rightarrow> error + ndarray option" where
  "read_spectrum_data genfromtxt fs fname =
     (case fs fname of
        None \<Rightarrow> Inr None
      | Some content \<Rightarrow> ebind (genfromtxt content) (\<lambda>data. Inr (Some data)))"

text \<open>
  The column selection \<^verbatim>\<open>data[:, k]\<close> for \<open>k \<ge> 0\<close>: TypeError on \<^verbatim>\<open>None\<close>, IndexError on
  a one-dimensional array (too many indices) and on a column the rows do not have.
\<close>

definition np_column :: "ndarray option \<Rightarrow> nat \<Rightarrow> error + real list" where
  "np_column data k =
     (case data of
        None \<Rightarrow> Inl TypeError
      | Some (Array1 xs) \<Rightarrow> Inl IndexError
      | Some (Array2 rows) \<Rightarrow>
          if list_all (\<lambda>r. k < length r) rows then Inr (map (\<lambda>r. r ! k) rows)
          else Inl IndexError)"

text \<open>
  \<^verbatim>\<open>get_energy_distribution\<close>. Only \<^verbatim>\<open>flog\<close> is divided by \<^verbatim>\<open>fnorm\<close>
  (\<^verbatim>\<open>flog /= fnorm\<close>); \<^verbatim>\<open>flin\<close> is returned as read. The division is NumPy's: it
  raises nothing, and for \<open>fnorm = 0\<close> its entries are inf or nan, values the model does
  not represent (the statements below assume \<open>fnorm \<noteq> 0\<close>).
\<close>

definition get_energy_distribution ::
  "parser \<Rightarrow> filesystem \<Rightarrow> string \<Rightarrow> real
     \<Rightarrow> error + (real list \<times> real list \<times> real list \<times> real list)"
where
  "get_energy_distribution genfromtxt fs fname fnorm =
     ebind (read_spectrum_data genfromtxt fs fname) (\<lambda>data.
     ebind (np_column data 0) (\<lambda>ene_lin.
     ebind (np_column data 1) (\<lambda>flin.
     ebind (np_column data 2) (\<lambda>ene_log.
     ebind (np_column data 3) (\<lambda>flog.
     let flog = map (\<lambda>x. x / fnorm) flog
     in Inr (ene_lin, flin, ene_log, flog))))))"

text \<open>
  The fields of the simulation descriptor \<^verbatim>\<open>pic_info\<close> that the modelled functions read.
  The grid sizes are integers; the particle number per cell and the mass ratio are
  numbers of either kind, taken as reals.
\<close>

record pic_information =
  nx :: int
  ny :: int
  nz :: int
  nppc :: real
  mime :: real

text \<open>Python's \<^verbatim>\<open>str\<close> of an integer: its decimal digits, with a minus sign if negative.\<close>

definition digit_char :: "nat \<Rightarrow> char" where
  "digit_char d = ''0123456789'' ! d"

function str_nat :: "nat \<Rightarrow> string" where
  "str_nat n = (if n < 10 then [digit_char n] else str_nat (n div 10) @ [digit_char (n mod 10)])"
  by pat_completeness auto
termination
  by (relation "measure id") auto

definition str_int :: "int \<Rightarrow> string" where
  "str_int i = (if i < 0 then CHR ''-'' # str_nat (nat (- i)) else str_nat (nat i))"

record fenergy =
  fe_species :: string
  fe_elin :: "real list"
  fe_flin :: "real list"
  fe_elog :: "real list"
  fe_flog :: "real list"

text \<open>
  \<^verbatim>\<open>read_energy_distribution\<close> of \<^verbatim>\<open>particle_distribution.py\<close>: every species other than
  \<^verbatim>\<open>'e'\<close> reads the \<^verbatim>\<open>spectrum-h\<close> file.
\<close>

definition spectrum_fname :: "string \<Rightarrow> string \<Rightarrow> int \<Rightarrow> string" where
  "spectrum_fname fpath species tframe =
     (if species = ''e'' then fpath @ ''spectrum-'' @ species @ ''.'' @ str_int tframe
      else fpath @ ''spectrum-h.'' @ str_int tframe)"

definition read_energy_distribution ::
  "parser \<Rightarrow> filesystem \<Rightarrow> string \<Rightarrow> int \<Rightarrow> pic_information \<Rightarrow> string \<Rightarrow> error + fenergy"
where
  "read_energy_distribution genfromtxt fs species tframe pic_info fpath =
     (let fname = spectrum_fname fpath species tframe;
          ntot = real_of_int (nx pic_info * ny pic_info) + real_of_int (nz pic_info) * nppc pic_info
      in ebind (get_energy_distribution genfromtxt fs fname ntot) (\<lambda>(el, fl, eg, fg).
           Inr \<lparr>fe_species = species, fe_elin = el, fe_flin = fl, fe_elog = eg, fe_flog = fg\<rparr>))"

section \<open>The binary particle file\<close>

text \<open>
  Integers are stored in the machine's byte order, taken to be little-endian, in two's
  complement. The value of a stored IEEE-754 float is given by a decoder that the reading
  functions take as a parameter (\<open>f32\<close> for four bytes, \<open>f64\<close> for eight).
\<close>

definition le_uint :: "byte list \<Rightarrow> int" where
  "le_uint bs = foldr (\<lambda>b acc. uint b + 256 * acc) bs 0"

definition le_sint :: "byte list \<Rightarrow> int" where
  "le_sint bs =
     (let u = le_uint bs; w = 8 * length bs
      in if 2 ^ (w - 1) \<le> u then u - 2 ^ w else u)"

text \<open>
  The value of a finite IEEE-754 bit pattern with \<open>ebits\<close> exponent bits and \<open>fbits\<close>
  fraction bits, stored little-endian: the decoder used in the examples. Patterns whose
  exponent bits are all ones (infinities and NaNs) have no real value and do not occur in
  the examples.
\<close>

definition ieee_value :: "nat \<Rightarrow> nat \<Rightarrow> byte list \<Rightarrow> real" where
  "ieee_value ebits fbits bs =
     (let w = le_uint bs;
          frac = w mod 2 ^ fbits;
          ex = (w div 2 ^ fbits) mod 2 ^ ebits;
          neg = (w div 2 ^ (fbits + ebits)) mod 2 = 1;
          bias = 2 ^ (ebits - 1) - 1;
          mag = (if ex = 0 then real_of_int frac / 2 ^ fbits / 2 ^ nat (bias - 1)
                 else if bias \<le> ex then (1 + real_of_int frac / 2 ^ fbits) * 2 ^ nat (ex - bias)
                 else (1 + real_of_int frac / 2 ^ fbits) / 2 ^ nat (bias - ex))
      in if neg then - mag else mag)"

definition ieee_single :: "byte list \<Rightarrow> real" where
  "ieee_single = ieee_value 8 23"

definition ieee_double :: "byte list \<Rightarrow> real" where
  "ieee_double = ieee_value 11 52"

text \<open>
  \<^verbatim>\<open>np.memmap(fh, dtype, mode, offset, shape=(n))\<close> for an item type of \<open>isize\<close> bytes:
  the \<open>n\<close> items stored from byte \<open>offset\<close> on. Mapping beyond the end of the file, or
  mapping an empty file, is a ValueError of \<^verbatim>\<open>mmap\<close>.
\<close>

definition memmap :: "(byte list \<Rightarrow> 'a) \<Rightarrow> nat \<Rightarrow> byte list \<Rightarrow> nat \<Rightarrow> nat \<Rightarrow> error + 'a list" where
  "memmap dec isize file offset n =
     (if file = [] \<or> length file < offset + n * isize then Inl ValueError
      else Inr (map (\<lambda>i. dec (take isize (drop (offset + i * isize) file))) [0..<n]))"

text \<open>
  \<^verbatim>\<open>np.fromfile(fh, dtype, count)\<close> with the file position at \<open>pos\<close>: a negative count
  reads every whole item up to the end of the file; otherwise at most \<open>count\<close> items are
  read, fewer when the file ends first (NumPy then returns the shorter array).
\<close>

definition np_fromfile :: "(byte list \<Rightarrow> 'a) \<Rightarrow> nat \<Rightarrow> byte list \<Rightarrow> nat \<Rightarrow> int \<Rightarrow> 'a list" where
  "np_fromfile dec isize file pos count =
     (let avail = (length file - pos) div isize;
          n = (if count < 0 then avail else min (nat count) avail)
      in map (\<lambda>i. dec (take isize (drop (pos + i * isize) file))) [0..<n])"

text \<open>\<^verbatim>\<open>read_boilerplate\<close>: five mappings whose values are dropped.\<close>

definition read_boilerplate :: "(byte list \<Rightarrow> real) \<Rightarrow> (byte list \<Rightarrow> real) \<Rightarrow> byte list \<Rightarrow> error + unit" where
  "read_boilerplate f32 f64 fh =
     (let offset = 0 in
      ebind (memmap le_sint 1 fh offset 5) (\<lambda>sizearr.
      let offset = offset + 5 in
      ebind (memmap le_sint 2 fh offset 1) (\<lambda>cafevar.
      let offset = offset + 2 in
      ebind (memmap le_sint 4 fh offset 1) (\<lambda>deadbeefvar.
      let offset = offset + 4 in
      ebind (memmap f32 4 fh offset 1) (\<lambda>realone.
      let offset = offset + 4 in
      ebind (memmap f64 8 fh offset 1) (\<lambda>doubleone.
      Inr ()))))))"

text \<open>The two named tuples of \<^verbatim>\<open>read_particle_header\<close>; the field \<open>x\<close> of \<^verbatim>\<open>v0\<close> is \<open>v0_x\<close>
  and the field \<open>x\<close> of \<^verbatim>\<open>pheader\<close> is \<open>ph_x\<close>.\<close>

record v0header =
  v0_version :: int
  v0_type :: int
  v0_nt :: int
  v0_nx :: int
  v0_ny :: int
  v0_nz :: int
  v0_dt :: real
  v0_dx :: real
  v0_dy :: real
  v0_dz :: real
  v0_x0 :: real
  v0_y0 :: real
  v0_z0 :: real
  v0_cvac :: real
  v0_eps0 :: real
  v0_damp :: real
  v0_rank :: int
  v0_ndom :: int
  v0_spid :: int
  v0_spqm :: int

record header_particle =
  ph_size :: int
  ph_ndim :: int
  ph_dim :: int

definition read_particle_header ::
  "(byte list \<Rightarrow> real) \<Rightarrow> byte list \<Rightarrow> error + (v0header \<times> header_particle \<times> nat)"
where
  "read_particle_header f32 fh =
     (let offset = 23 in
      ebind (memmap le_sint 4 fh offset 6) (\<lambda>tmp1.
      let offset = offset + 6 * 4 in
      ebind (memmap f32 4 fh offset 10) (\<lambda>tmp2.
      let offset = offset + 10 * 4 in
      ebind (memmap le_sint 4 fh offset 4) (\<lambda>tmp3.
      let v0 = \<lparr>v0_version = tmp1 ! 0, v0_type = tmp1 ! 1, v0_nt = tmp1 ! 2, v0_nx = tmp1 ! 3,
                v0_ny = tmp1 ! 4, v0_nz = tmp1 ! 5, v0_dt = tmp2 ! 0, v0_dx = tmp2 ! 1,
                v0_dy = tmp2 ! 2, v0_dz = tmp2 ! 3, v0_x0 = tmp2 ! 4, v0_y0 = tmp2 ! 5,
                v0_z0 = tmp2 ! 6, v0_cvac = tmp2 ! 7, v0_eps0 = tmp2 ! 8, v0_damp = tmp2 ! 9,
                v0_rank = tmp3 ! 0, v0_ndom = tmp3 ! 1, v0_spid = tmp3 ! 2, v0_spqm = tmp3 ! 3\<rparr>;
          offset = offset + 4 * 4 in
      ebind (memmap le_sint 4 fh offset 3) (\<lambda>tmp4.
      let pheader = \<lparr>ph_size = tmp4 ! 0, ph_ndim = tmp4 ! 1, ph_dim = tmp4 ! 2\<rparr>;
          offset = offset + 3 * 4
      in Inr (v0, pheader, offset))))))"

text \<open>One particle record, \<^verbatim>\<open>particle_type\<close>: 32 bytes without padding. The field \<open>x\<close>
  of a record is \<open>ptl_x\<close>.\<close>

record particle =
  ptl_dxyz :: "real \<times> real \<times> real"
  ptl_icell :: int
  ptl_u :: "real \<times> real \<times> real"
  ptl_q :: real

definition field :: "byte list \<Rightarrow> nat \<Rightarrow> byte list" where
  "field bs k = take 4 (drop k bs)"

definition decode_particle :: "(byte list \<Rightarrow> real) \<Rightarrow> byte list \<Rightarrow> particle" where
  "decode_particle f32 bs =
     \<lparr>ptl_dxyz = (f32 (field bs 0), f32 (field bs 4), f32 (field bs 8)),
      ptl_icell = le_sint (field bs 12),
      ptl_u = (f32 (field bs 16), f32 (field bs 20), f32 (field bs 24)),
      ptl_q = f32 (field bs 28)\<rparr>"

definition read_particle_data ::
  "(byte list \<Rightarrow> real) \<Rightarrow> (byte list \<Rightarrow> real) \<Rightarrow> filesystem \<Rightarrow> string
     \<Rightarrow> error + (v0header \<times> header_particle \<times> particle list)"
where
  "read_particle_data f32 f64 fs fname =
     (case fs fname of
        None \<Rightarrow> Inl IOError
      | Some fh \<Rightarrow>
          ebind (read_boilerplate f32 f64 fh) (\<lambda>_.
          ebind (read_particle_header f32 fh) (\<lambda>(v0, pheader, offset).
          let nptl = ph_dim pheader;
              data = np_fromfile (decode_particle f32) 32 fh offset nptl
          in Inr (v0, pheader, data))))"

text \<open>
  The records of a particle file as the statements name them: record \<open>i\<close> of the array
  that starts at byte \<open>start\<close>.
\<close>

definition record_at :: "(byte list \<Rightarrow> real) \<Rightarrow> byte list \<Rightarrow> nat \<Rightarrow> nat \<Rightarrow> particle" where
  "record_at f32 file start i = decode_particle f32 (take 32 (drop (start + 32 * i) file))"

definition stored_dim :: "byte list \<Rightarrow> int" where
  "stored_dim file = le_sint (take 4 (drop 111 file))"

text \<open>
  A sample file of 147 bytes: a zero boilerplate and header, the sub-header
  \<open>size = 32\<close>, \<open>ndim = 1\<close>, \<open>dim = 1\<close> at bytes 103 to 114, and one record at bytes 115
  to 146 whose cell index is 7 and whose floats are all stored as zero bytes (the float
  \<open>0.0\<close>).
\<close>

definition sample_particle_file :: "byte list" where
  "sample_particle_file =
     replicate 103 0 @ [32, 0, 0, 0, 1, 0, 0, 0, 1, 0, 0, 0]
     @ replicate 12 0 @ [7, 0, 0, 0] @ replicate 16 0"

section \<open>The velocity-distribution files\<close>

text \<open>The \<open>n\<close> doubles stored from byte \<open>offset\<close> on, as a list.\<close>

definition f64_array :: "(byte list \<Rightarrow> real) \<Rightarrow> byte list \<Rightarrow> nat \<Rightarrow> nat \<Rightarrow> real list" where
  "f64_array f64 fh offset n = map (\<lambda>i. f64 (take 8 (drop (offset + i * 8) fh))) [0..<n]"

text \<open>\<^verbatim>\<open>math.sqrt\<close>: ValueError (math domain error) on a negative argument.\<close>

definition math_sqrt :: "real \<Rightarrow> error + real" where
  "math_sqrt x = (if x < 0 then Inl ValueError else Inr (sqrt x))"

text \<open>
  \<^verbatim>\<open>np.min(a[np.nonzero(a)])\<close> and \<^verbatim>\<open>np.max(a[np.nonzero(a)])\<close>: the reduction of an array
  without a nonzero entry is a ValueError.
\<close>

definition nonzero_min :: "real list \<Rightarrow> error + real" where
  "nonzero_min a = py_min (filter (\<lambda>x. x \<noteq> 0) a)"

definition nonzero_max :: "real list \<Rightarrow> error + real" where
  "nonzero_max a = py_max (filter (\<lambda>x. x \<noteq> 0) a)"

text \<open>
  The named tuple \<^verbatim>\<open>fvelocity\<close>; its field \<open>x\<close> is \<open>fv_x\<close>. A two-dimensional
  histogram is held as the list of its entries in storage (row-major) order.
\<close>

record fvelocity =
  fv_species :: string
  fv_tframe :: int
  fv_center :: "real list"
  fv_sizes :: "real list"
  fv_vmin :: real
  fv_vmax :: real
  fv_nbins :: int
  fv_vbins_short :: "real list"
  fv_vbins_long :: "real list"
  fv_fvel_para_perp :: "real list"
  fv_fvel_xy :: "real list"
  fv_fvel_xz :: "real list"
  fv_fvel_yz :: "real list"
  fv_fvel_para :: "real list"
  fv_fvel_perp :: "real list"
  fv_vmin_2d :: real
  fv_vmax_2d :: real
  fv_vmin_1d :: real
  fv_vmax_1d :: real

text \<open>The file names: every species other than \<^verbatim>\<open>'e'\<close> reads the \<^verbatim>\<open>-h\<close> files.\<close>

definition vdist_fname :: "string \<Rightarrow> string \<Rightarrow> string \<Rightarrow> int \<Rightarrow> string" where
  "vdist_fname fpath kind species tframe =
     (if species = ''e'' then fpath @ kind @ species @ ''.'' @ str_int tframe
      else fpath @ kind @ ''h.'' @ str_int tframe)"

text \<open>
  \<^verbatim>\<open>read_velocity_distribution\<close>. \<^verbatim>\<open>np.zeros(nbins)\<close> raises ValueError for a negative
  \<open>nbins\<close>. The divisions by \<open>smime\<close> are NumPy's and raise nothing; for \<open>mime = 0\<close>
  their results are inf or nan, values the model does not represent.
\<close>

definition read_velocity_distribution ::
  "(byte list \<Rightarrow> real) \<Rightarrow> (byte list \<Rightarrow> real) \<Rightarrow> filesystem
     \<Rightarrow> string \<Rightarrow> int \<Rightarrow> pic_information \<Rightarrow> string \<Rightarrow> error + fvelocity"
where
  "read_velocity_distribution f32 f64 fs species tframe pic_info fpath =
     (case fs (vdist_fname fpath ''vdist_2d-'' species tframe) of
        None \<Rightarrow> Inl IOError
      | Some f \<Rightarrow>
     let offset = 0 in
     ebind (memmap f32 4 f offset 3) (\<lambda>center.
     let offset = 3 * 4 in
     ebind (memmap f32 4 f offset 3) (\<lambda>sizes.
     let offset = offset + 3 * 4 in
     ebind (memmap f32 4 f offset 2) (\<lambda>vmin_vmax.
     let vmin = vmin_vmax ! 0; vmax = vmin_vmax ! 1;
         offset = offset + 2 * 4 in
     ebind (memmap le_sint 4 f offset 1) (\<lambda>nbins_arr.
     let nbins = nbins_arr ! 0;
         offset = offset + 4 in
     if nbins < 0 then Inl ValueError
     else
     let n = nat nbins in
     ebind (memmap f64 8 f offset n) (\<lambda>vbins_short.
     let offset = offset + 8 * n in
     ebind (memmap f64 8 f offset (2 * n)) (\<lambda>vbins_long.
     let offset = offset + 8 * n * 2 in
     ebind (memmap f64 8 f offset (n * (2 * n))) (\<lambda>fvel_para_perp.
     let offset = offset + 8 * n * 2 * n in
     ebind (memmap f64 8 f offset (2 * n * (2 * n))) (\<lambda>fvel_xy.
     let offset = offset + 8 * 2 * n * 2 * n in
     ebind (memmap f64 8 f offset (2 * n * (2 * n))) (\<lambda>fvel_xz.
     let offset = offset + 8 * 2 * n * 2 * n in
     ebind (memmap f64 8 f offset (2 * n * (2 * n))) (\<lambda>fvel_yz.
     case fs (vdist_fname fpath ''vdist_1d-'' species tframe) of
        None \<Rightarrow> Inl IOError
      | Some f \<Rightarrow>
     let offset = 9 * 4 + 8 * n * 3 in
     ebind (memmap f64 8 f offset (2 * n)) (\<lambda>fvel_para.
     let offset = offset + 8 * n * 2 in
     ebind (memmap f64 8 f offset n) (\<lambda>fvel_perp.
     ebind (math_sqrt (mime pic_info)) (\<lambda>smime.
     let (vbins_short, vbins_long, vmin, vmax) =
           (if species = ''h''
            then (map (\<lambda>x. x / smime) vbins_short, map (\<lambda>x. x / smime) vbins_long,
                  vmin / smime, vmax / smime)
            else (vbins_short, vbins_long, vmin, vmax));
         delta = 0.01;
         fvel_para_perp = map (\<lambda>x. x + delta) fvel_para_perp;
         fvel_xy = map (\<lambda>x. x + delta) fvel_xy;
         fvel_xz = map (\<lambda>x. x + delta) fvel_xz;
         fvel_yz = map (\<lambda>x. x + delta) fvel_yz;
         fvel_para = map (\<lambda>x. x + delta) fvel_para;
         fvel_perp = map (\<lambda>x. x + delta) fvel_perp in
     ebind (nonzero_min fvel_para_perp) (\<lambda>m1.
     ebind (nonzero_min fvel_xy) (\<lambda>m2.
     ebind (nonzero_min fvel_xz) (\<lambda>m3.
     ebind (nonzero_min fvel_yz) (\<lambda>m4.
     let vmin_2d = min m1 (min m2 (min m3 m4)) in
     ebind (nonzero_max fvel_para_perp) (\<lambda>m1.
     ebind (nonzero_max fvel_xy) (\<lambda>m2.
     ebind (nonzero_max fvel_xz) (\<lambda>m3.
     ebind (nonzero_max fvel_yz) (\<lambda>m4.
     let vmax_2d = max m1 (max m2 (max m3 m4)) in
     ebind (nonzero_min fvel_para) (\<lambda>m1.
     ebind (nonzero_min fvel_perp) (\<lambda>m2.
     let vmin_1d = min m1 m2 in
     ebind (nonzero_max fvel_para) (\<lambda>m1.
     ebind (nonzero_max fvel_perp) (\<lambda>m2.
     let vmax_1d = max m1 m2 in
     Inr \<lparr>fv_species = species, fv_tframe = tframe, fv_center = center, fv_sizes = sizes,
          fv_vmin = vmin, fv_vmax = vmax, fv_nbins = nbins,
          fv_vbins_short = vbins_short, fv_vbins_long = vbins_long,
          fv_fvel_para_perp = fvel_para_perp, fv_fvel_xy = fvel_xy, fv_fvel_xz = fvel_xz,
          fv_fvel_yz = fvel_yz, fv_fvel_para = fvel_para, fv_fvel_perp = fvel_perp,
          fv_vmin_2d = vmin_2d, fv_vmax_2d = vmax_2d,
          fv_vmin_1d = vmin_1d, fv_vmax_1d = vmax_1d\<rparr>))))))))))))))))))))))))))"

text \<open>
  The six histograms as they are stored, for \<open>n\<close> bins: four in the two-dimensional file
  \<open>f2\<close> (after the 36 header bytes and the \<open>3 n\<close> doubles of the two bin arrays) and two in
  the one-dimensional file \<open>f1\<close>.
\<close>

definition stored_histograms ::
  "(byte list \<Rightarrow> real) \<Rightarrow> byte list \<Rightarrow> byte list \<Rightarrow> nat \<Rightarrow> real list list"
where
  "stored_histograms f64 f2 f1 n =
     [f64_array f64 f2 (36 + 24 * n) (2 * (n * n)),
      f64_array f64 f2 (36 + 24 * n + 16 * (n * n)) (4 * (n * n)),
      f64_array f64 f2 (36 + 24 * n + 48 * (n * n)) (4 * (n * n)),
      f64_array f64 f2 (36 + 24 * n + 80 * (n * n)) (4 * (n * n)),
      f64_array f64 f1 (36 + 24 * n) (2 * n),
      f64_array f64 f1 (36 + 40 * n) n]"

text \<open>
  A sample pair of files with one bin: \<open>vmin = 0.0\<close>, \<open>vmax = 5.0\<close> (single precision),
  \<open>nbins = 1\<close>, the short bin array \<open>[5.0]\<close>, the long bin array \<open>[-5.0, 5.0]\<close> (double
  precision) and histograms that are zero everywhere.
\<close>

definition sample_vdist_head :: "byte list" where
  "sample_vdist_head =
     replicate 24 0 @ [0, 0, 0, 0] @ [0, 0, 0xA0, 0x40] @ [1, 0, 0, 0]
     @ [0, 0, 0, 0, 0, 0, 0x14, 0x40]
     @ [0, 0, 0, 0, 0, 0, 0x14, 0xC0] @ [0, 0, 0, 0, 0, 0, 0x14, 0x40]"

definition sample_vdist_2d :: "byte list" where
  "sample_vdist_2d = sample_vdist_head @ replicate 112 0"

definition sample_vdist_1d :: "byte list" where
  "sample_vdist_1d = replicate 84 0"

definition sample_vdist_fs :: "string \<Rightarrow> filesystem" where
  "sample_vdist_fs species name =
     (if name = ''../vdistributions/vdist_2d-'' @ species @ ''.10'' then Some sample_vdist_2d
      else if name = ''../vdistributions/vdist_1d-'' @ species @ ''.10'' then Some sample_vdist_1d
      else None)"

section \<open>Rounded arithmetic\<close>

text \<open>
  Three results of the program depend on comparisons of computed numbers: the box test of
  a reconstructed position, the bin of a velocity, and the place of the largest smoothed
  flux. For these the floating-point operations are not replaced by exact ones. They are
  the fields of a parameter \<open>ops\<close>: the single-precision sum and product, the
  double-precision sum, difference, product, quotient and square root, and NumPy's inner
  product of two double-precision arrays of equal length. Every floating-point number is a
  real number, and comparisons of such numbers are exact. The statements hold for every
  choice of the operations.
\<close>

record float_ops =
  f32_add :: "real \<Rightarrow> real \<Rightarrow> real"
  f32_mul :: "real \<Rightarrow> real \<Rightarrow> real"
  f64_add :: "real \<Rightarrow> real \<Rightarrow> real"
  f64_sub :: "real \<Rightarrow> real \<Rightarrow> real"
  f64_mul :: "real \<Rightarrow> real \<Rightarrow> real"
  f64_div :: "real \<Rightarrow> real \<Rightarrow> real"
  f64_sqrt :: "real \<Rightarrow> real"
  f64_dot :: "real list \<Rightarrow> real list \<Rightarrow> real"

text \<open>
  The operations without rounding. The rounded operations agree with them wherever the
  exact result is a floating-point number, as it is throughout the examples below except
  where an example says otherwise.
\<close>

definition exact_ops :: float_ops where
  "exact_ops =
     \<lparr>f32_add = (+), f32_mul = (*), f64_add = (+), f64_sub = (-), f64_mul = (*),
      f64_div = (/), f64_sqrt = sqrt,
      f64_dot = (\<lambda>xs ys. sum_list (map2 (*) xs ys))\<rparr>"

section \<open>The velocity histograms of a box\<close>

text \<open>
  \<^verbatim>\<open>np.histogram2d(x, y, bins=nbins, range=[[-1, 1], [-1, 1]])\<close>. The edges of an axis are
  \<^verbatim>\<open>np.linspace(-1, 1, nbins + 1)\<close>: the step is the quotient of \<open>1 - (-1)\<close> by the
  number of bins, edge \<open>k\<close> is \<open>k * step + (-1)\<close>, and the last edge is set to \<open>1\<close>.
\<close>

definition hist_edges :: "float_ops \<Rightarrow> nat \<Rightarrow> real list" where
  "hist_edges ops nb =
     (let step = f64_div ops (f64_sub ops 1 (- 1)) (real nb)
      in map (\<lambda>k. f64_add ops (f64_mul ops (real k) step) (- 1)) [0..<nb] @ [1])"

text \<open>
  The bin of a value for given edges. NumPy searches the sorted edges for the number of
  edges that are not above the value; a value on the last edge belongs to the last bin,
  and a value below the first edge or above the last one is not counted.
\<close>

definition bin_in :: "real list \<Rightarrow> real \<Rightarrow> nat option" where
  "bin_in edges a =
     (let nb = length edges - 1;
          idx = length (filter (\<lambda>e. e \<le> a) edges);
          idx = (if a = last edges then idx - 1 else idx)
      in if 1 \<le> idx \<and> idx \<le> nb then Some (idx - 1) else None)"

text \<open>
  Counts are natural numbers (NumPy returns them as floats). A bin number that is not
  positive is a ValueError.
\<close>

definition histogram2d ::
  "float_ops \<Rightarrow> real list \<Rightarrow> real list \<Rightarrow> int
     \<Rightarrow> error + (nat list list \<times> real list \<times> real list)"
where
  "histogram2d ops xs ys nbins =
     (if nbins \<le> 0 then Inl ValueError
      else
        let nb = nat nbins;
            edges = hist_edges ops nb;
            cells = map (\<lambda>(a, b). (bin_in edges a, bin_in edges b)) (zip xs ys);
            hist = map (\<lambda>i. map (\<lambda>j. count_list cells (Some i, Some j)) [0..<nb]) [0..<nb]
        in Inr (hist, edges, edges))"

text \<open>
  The position of a particle, as \<^verbatim>\<open>calc_velocity_distribution\<close> reconstructs it from the
  cell index and the offset within the cell, already divided by \<open>smime\<close>. The offsets
  \<^verbatim>\<open>dx\<close>, \<^verbatim>\<open>dy\<close>, \<^verbatim>\<open>dz\<close> are single-precision arrays, so \<^verbatim>\<open>(dz + 1.0) * 0.5\<close> is computed
  in single precision; the cell coordinate minus \<^verbatim>\<open>1.0\<close> and everything that follows is
  computed in double precision. The integer divisions are NumPy's floor divisions, whose
  value for a zero divisor is 0, as in HOL; cell indices are taken as unbounded integers.
\<close>

definition particle_xyz ::
  "float_ops \<Rightarrow> v0header \<Rightarrow> real \<Rightarrow> particle \<Rightarrow> real \<times> real \<times> real"
where
  "particle_xyz ops v0 smime p =
     (let (dx, dy, dz) = ptl_dxyz p;
          icell = ptl_icell p;
          nx = v0_nx v0 + 2;
          ny = v0_ny v0 + 2;
          nz = v0_nz v0 + 2;
          iz = icell div (nx * ny);
          iy = (icell - iz * nx * ny) div nx;
          ix = icell - iz * nx * ny - iy * nx;
          z = f64_add ops (v0_z0 v0)
                (f64_mul ops (f64_add ops (f64_sub ops (real_of_int iz) 1.0)
                                          (f32_mul ops (f32_add ops dz 1.0) 0.5))
                             (v0_dz v0));
          y = f64_add ops (v0_y0 v0)
                (f64_mul ops (f64_add ops (f64_sub ops (real_of_int iy) 1.0)
                                          (f32_mul ops (f32_add ops dy 1.0) 0.5))
                             (v0_dy v0));
          x = f64_add ops (v0_x0 v0)
                (f64_mul ops (f64_add ops (f64_sub ops (real_of_int ix) 1.0)
                                          (f32_mul ops (f32_add ops dx 1.0) 0.5))
                             (v0_dx v0))
      in (f64_div ops x smime, f64_div ops y smime, f64_div ops z smime))"

type_synonym corners = "(real \<times> real) \<times> (real \<times> real) \<times> (real \<times> real)"

text \<open>
  \<^verbatim>\<open>calc_velocity_distribution\<close>. \<^verbatim>\<open>math.sqrt\<close> raises ValueError on a negative
  argument. The division by \<open>smime\<close> is NumPy's and raises nothing; for \<open>smime = 0\<close> its
  results are inf or nan, values the model does not represent. The result is the three
  histograms and the edges of the last call.
\<close>

definition calc_velocity_distribution ::
  "float_ops \<Rightarrow> v0header \<Rightarrow> header_particle \<Rightarrow> particle list \<Rightarrow> pic_information
     \<Rightarrow> corners \<Rightarrow> int
     \<Rightarrow> error + (nat list list \<times> nat list list \<times> nat list list \<times> real list \<times> real list)"
where
  "calc_velocity_distribution ops v0 pheader ptl pic_info corners nbins =
     (if mime pic_info < 0 then Inl ValueError
      else
     let smime = f64_sqrt ops (mime pic_info);
         ((c00, c01), (c10, c11), (c20, c21)) = corners;
         mask = (\<lambda>p. case particle_xyz ops v0 smime p of (x, y, z) \<Rightarrow>
                   (x \<ge> c00) \<and> (x \<le> c01) \<and> (y \<ge> c10) \<and> (y \<le> c11) \<and> (z \<ge> c20) \<and> (z \<le> c21));
         kept = filter mask ptl;
         ux_d = map (\<lambda>p. fst (ptl_u p)) kept;
         uy_d = map (\<lambda>p. fst (snd (ptl_u p))) kept;
         uz_d = map (\<lambda>p. snd (snd (ptl_u p))) kept in
     ebind (histogram2d ops uy_d ux_d nbins) (\<lambda>(hist_xy, xedges, yedges).
     ebind (histogram2d ops uz_d ux_d nbins) (\<lambda>(hist_xz, xedges, yedges).
     ebind (histogram2d ops uz_d uy_d nbins) (\<lambda>(hist_yz, xedges, yedges).
     Inr (hist_xy, hist_xz, hist_yz, xedges, yedges)))))"

text \<open>A histogram of \<open>nb\<close> by \<open>nb\<close> bins with the count 1 in bin \<open>(i, j)\<close> and 0 elsewhere.\<close>

definition single_count :: "nat \<Rightarrow> nat \<Rightarrow> nat \<Rightarrow> nat list list" where
  "single_count nb i j = (replicate nb (replicate nb 0))[i := (replicate nb 0)[j := 1]]"

text \<open>
  The histogram that counts, in bin \<open>(i, j)\<close>, the members \<open>p\<close> of \<open>ps\<close> that satisfy
  \<open>keep\<close> and whose values \<open>a p\<close> and \<open>b p\<close> fall into the bins \<open>i\<close> and \<open>j\<close> of the
  given edges.
\<close>

definition counts_of ::
  "real list \<Rightarrow> ('p \<Rightarrow> bool) \<Rightarrow> ('p \<Rightarrow> real) \<Rightarrow> ('p \<Rightarrow> real) \<Rightarrow> 'p list \<Rightarrow> nat list list"
where
  "counts_of edges keep a b ps =
     map (\<lambda>i. map (\<lambda>j. length (filter (\<lambda>p. keep p \<and> bin_in edges (a p) = Some i
                                               \<and> bin_in edges (b p) = Some j) ps))
                 [0..<length edges - 1])
         [0..<length edges - 1]"

text \<open>The three velocity components of a particle.\<close>

definition ptl_ux :: "particle \<Rightarrow> real" where "ptl_ux p = fst (ptl_u p)"
definition ptl_uy :: "particle \<Rightarrow> real" where "ptl_uy p = fst (snd (ptl_u p))"
definition ptl_uz :: "particle \<Rightarrow> real" where "ptl_uz p = snd (snd (ptl_u p))"

text \<open>
  A sample header and particle: a grid of \<open>2 \<times> 2 \<times> 2\<close> cells of unit size with origin 0,
  and a particle in cell \<open>(1, 1, 1)\<close> (index \<open>1 * 16 + 1 * 4 + 1\<close> with the ghost cells) at
  the lower corner of its cell, so that its position is \<open>(0, 0, 0)\<close>, with velocity
  \<open>(0.5, 0.5, 0.5)\<close>. Every number that the reconstruction of this position and the 65
  edges of 64 bins meet is a small multiple of a power of two, so that no operation rounds.
\<close>

definition sample_v0 :: v0header where
  "sample_v0 =
     \<lparr>v0_version = 0, v0_type = 0, v0_nt = 0, v0_nx = 2, v0_ny = 2, v0_nz = 2,
      v0_dt = 1, v0_dx = 1, v0_dy = 1, v0_dz = 1, v0_x0 = 0, v0_y0 = 0, v0_z0 = 0,
      v0_cvac = 1, v0_eps0 = 1, v0_damp = 0, v0_rank = 0, v0_ndom = 1, v0_spid = 0,
      v0_spqm = - 1\<rparr>"

definition sample_particle :: particle where
  "sample_particle =
     \<lparr>ptl_dxyz = (- 1, - 1, - 1), ptl_icell = 21, ptl_u = (1 / 2, 1 / 2, 1 / 2), ptl_q = 1\<rparr>"

section \<open>Thermal-core and power-law fits\<close>

text \<open>
  \<^verbatim>\<open>np.argmax\<close> of a one-dimensional array: the index of the first largest entry, found
  by one pass that replaces the best entry only by a strictly larger one; ValueError on an
  empty array.
\<close>

fun np_argmax :: "real list \<Rightarrow> error + nat" where
  "np_argmax [] = Inl ValueError"
| "np_argmax (x # xs) =
     Inr (fst (fold (\<lambda>y (best, bv, i). if bv < y then (i, y, Suc i) else (best, bv, Suc i))
                    xs (0, x, 1)))"

text \<open>
  \<^verbatim>\<open>np.convolve(a, v, 'same')\<close>. The arguments are swapped when \<open>v\<close> is the longer, and an
  empty argument is a ValueError. NumPy then correlates \<open>a\<close> with the reversed \<open>v\<close>: with
  \<open>n1\<close> and \<open>n2\<close> the two lengths, \<open>n_left = n2 div 2\<close> and \<open>n_right = n2 - n_left - 1\<close>,
  the result has \<open>n_left\<close> entries for which the reversed \<open>v\<close> hangs over the left end of
  \<open>a\<close> (the inner product of a prefix of \<open>a\<close> and a suffix of the reversed \<open>v\<close>), then
  \<open>n1 - n2 + 1\<close> entries that are the inner product of \<open>n2\<close> consecutive entries of \<open>a\<close>
  and the whole reversed \<open>v\<close>, then \<open>n_right\<close> entries for which the reversed \<open>v\<close> hangs
  over the right end. Each inner product is computed in double precision, in an order of
  summation that NumPy chooses: it is the operation \<open>f64_dot\<close>.
\<close>

definition np_convolve_same :: "float_ops \<Rightarrow> real list \<Rightarrow> real list \<Rightarrow> error + real list" where
  "np_convolve_same ops a v =
     (let (a, v) = (if length a < length v then (v, a) else (a, v)) in
      if a = [] then Inl ValueError
      else if v = [] then Inl ValueError
      else
        let vr = rev v;
            n1 = length a;
            n2 = length v;
            n_left = n2 div 2;
            n_right = n2 - n_left - 1
        in Inr (map (\<lambda>t. f64_dot ops (take (n2 - n_left + t) a) (drop (n_left - t) vr))
                    [0..<n_left]
              @ map (\<lambda>i. f64_dot ops (take n2 (drop i a)) vr) [0..<n1 - n2 + 1]
              @ map (\<lambda>t. f64_dot ops (drop (n1 - n2 + 1 + t) a) (take (n2 - 1 - t) vr))
                    [0..<n_right]))"

text \<open>
  Python's slice \<^verbatim>\<open>xs[a:b]\<close> and NumPy's item access \<^verbatim>\<open>xs[i]\<close> for integer bounds: a
  negative bound counts from the end, a slice is clipped to the array, an item outside the
  array is an IndexError.
\<close>

definition slice_bound :: "nat \<Rightarrow> int \<Rightarrow> nat" where
  "slice_bound n i = (if i < 0 then nat (max 0 (i + int n)) else min (nat i) n)"

definition py_slice :: "'a list \<Rightarrow> int \<Rightarrow> int \<Rightarrow> 'a list" where
  "py_slice xs a b =
     (let s = slice_bound (length xs) a; e = slice_bound (length xs) b
      in take (e - s) (drop s xs))"

definition np_getitem :: "'a list \<Rightarrow> int \<Rightarrow> error + 'a" where
  "np_getitem xs i =
     (if i < - int (length xs) \<or> int (length xs) \<le> i then Inl IndexError
      else if i < 0 then Inr (xs ! nat (i + int (length xs)))
      else Inr (xs ! nat i))"

text \<open>
  The model function (\<^verbatim>\<open>fitting_funcs.func_maxwellian\<close>, not part of the sources at hand)
  maps an array and two parameters to an array; \<^verbatim>\<open>scipy.optimize.curve_fit\<close> maps the
  model function and the data to the two fitted parameters or raises. Both are parameters
  of \<^verbatim>\<open>fit_thermal_core\<close>.
\<close>

type_synonym model_fn = "real list \<Rightarrow> real \<Rightarrow> real \<Rightarrow> real list"
type_synonym fitter = "model_fn \<Rightarrow> real list \<Rightarrow> real list \<Rightarrow> error + (real \<times> real)"

text \<open>
  \<^verbatim>\<open>fit_thermal_core\<close>. The kernel \<^verbatim>\<open>np.ones(ng) / float(ng)\<close> holds three times the
  double-precision quotient of 1 by 3. The \<^verbatim>\<open>print\<close> of \<^verbatim>\<open>ene[eend - 10]\<close> raises
  IndexError when \<^verbatim>\<open>ene\<close> is too short; the division \<^verbatim>\<open>0.5 / popt[1]\<close> in the next
  \<^verbatim>\<open>print\<close> is NumPy's and raises nothing.
\<close>

definition fit_thermal_core ::
  "float_ops \<Rightarrow> fitter \<Rightarrow> model_fn \<Rightarrow> real list \<Rightarrow> real list \<Rightarrow> error + real list"
where
  "fit_thermal_core ops curve_fit func_maxwellian ene f =
     (let estart = 0;
          ng = 3;
          kernel = map (\<lambda>x. f64_div ops x (real ng)) (replicate ng 1) in
      ebind (np_convolve_same ops f kernel) (\<lambda>fnew.
      let nshift = 10 in
      ebind (np_argmax fnew) (\<lambda>am.
      let eend = int am + nshift in
      ebind (curve_fit func_maxwellian (py_slice ene estart eend) (py_slice f estart eend))
        (\<lambda>(popt0, popt1).
      let fthermal = func_maxwellian ene popt0 popt1 in
      ebind (np_getitem ene (eend - 10)) (\<lambda>_.
      Inr fthermal)))))"

text \<open>
  The length-3 moving average of the flux, as the claim describes it. The bins that enter
  the average at bin \<open>i\<close> are \<open>i - 1\<close>, \<open>i\<close> and \<open>i + 1\<close>, as far as they exist; the
  smoothed flux at bin \<open>i\<close> is the computed inner product of these entries with as many
  weights, each the computed quotient of 1 by 3. Without rounding this is a third of the
  sum of the entries, \<open>moving_average3\<close>. The first bin at which a function on the bins
  \<open>0, \<dots>, n - 1\<close> is largest is described by \<open>first_argmax\<close>.
\<close>

definition neighbours :: "real list \<Rightarrow> nat \<Rightarrow> real list" where
  "neighbours f i =
     (if i = 0 then [] else [f ! (i - 1)]) @ [f ! i] @ (if Suc i < length f then [f ! Suc i] else [])"

definition smoothed3 :: "float_ops \<Rightarrow> real list \<Rightarrow> nat \<Rightarrow> real" where
  "smoothed3 ops f i =
     f64_dot ops (neighbours f i) (replicate (length (neighbours f i)) (f64_div ops 1 3))"

definition moving_average3 :: "real list \<Rightarrow> nat \<Rightarrow> real" where
  "moving_average3 f i =
     ((if i = 0 then 0 else f ! (i - 1)) + f ! i + (if Suc i < length f then f ! Suc i else 0)) / 3"

definition first_argmax :: "nat \<Rightarrow> (nat \<Rightarrow> real) \<Rightarrow> nat \<Rightarrow> bool" where
  "first_argmax n g k \<longleftrightarrow> k < n \<and> (\<forall>j<n. g j \<le> g k) \<and> (\<forall>j<k. g j < g k)"













section \<open>Properties of the accumulated sums\<close>

lemma ebind_Inl [simp]: "ebind (Inl e) k = Inl e"
  by (simp add: ebind_def)

lemma ebind_Inr [simp]: "ebind (Inr x) k = k x"
  by (simp add: ebind_def)

lemma py_max_Max: "xs \<noteq> [] \<Longrightarrow> py_max xs = Inr (Max (set xs))"
  by (cases xs) (simp_all add: Max.set_eq_fold [symmetric])

lemma py_min_Min: "xs \<noteq> [] \<Longrightarrow> py_min xs = Inr (Min (set xs))"
  by (cases xs) (simp_all add: Min.set_eq_fold [symmetric])

lemma acc_loop_append:
  "acc_loop ene f (xs @ ys) s = ebind (acc_loop ene f xs s) (acc_loop ene f ys)"
proof (induction xs arbitrary: s)
  case Nil
  show ?case by simp
next
  case (Cons i xs)
  obtain nacc eacc where s: "s = (nacc, eacc)" by (cases s)
  show ?case unfolding s by (simp add: Cons.IH Let_def)
qed

lemma acc_loop_upt:
  assumes "b \<le> length ene" "b \<le> n" "length nacc = n" "length eacc = n" "1 \<le> a"
  shows "\<exists>nacc' eacc'. acc_loop ene f [a..<b] (nacc, eacc) = Inr (nacc', eacc')
           \<and> length nacc' = n \<and> length eacc' = n
           \<and> (\<forall>i<a. nacc' ! i = nacc ! i \<and> eacc' ! i = eacc ! i)
           \<and> (\<forall>i. a \<le> i \<and> i < b \<longrightarrow>
                  nacc' ! i = nterm ene f i + nacc' ! (i - 1)
                \<and> eacc' ! i = eterm ene f i + eacc' ! (i - 1))"
  using assms
proof (induction b)
  case 0
  then show ?case by simp
next
  case (Suc b)
  show ?case
  proof (cases "a \<le> b")
    case False
    then show ?thesis using Suc.prems by simp
  next
    case True
    from Suc obtain n1 e1 where
      run: "acc_loop ene f [a..<b] (nacc, eacc) = Inr (n1, e1)"
      and len: "length n1 = n" "length e1 = n"
      and low: "\<forall>i<a. n1 ! i = nacc ! i \<and> e1 ! i = eacc ! i"
      and rec: "\<forall>i. a \<le> i \<and> i < b \<longrightarrow>
                  n1 ! i = nterm ene f i + n1 ! (i - 1)
                \<and> e1 ! i = eterm ene f i + e1 ! (i - 1)"
      by force
    have b: "b < length ene" "b < n" "0 < b" using Suc.prems True by auto
    let ?n2 = "n1[b := nterm ene f b + n1 ! (b - 1)]"
    let ?e2 = "e1[b := eterm ene f b + e1 ! (b - 1)]"
    have step: "acc_loop ene f [a..<Suc b] (nacc, eacc) = Inr (?n2, ?e2)"
      using True b len by (simp add: acc_loop_append run nterm_def eterm_def Let_def)
    have "\<forall>i<a. ?n2 ! i = nacc ! i \<and> ?e2 ! i = eacc ! i"
      using low True by auto
    moreover have "\<forall>i. a \<le> i \<and> i < Suc b \<longrightarrow>
                  ?n2 ! i = nterm ene f i + ?n2 ! (i - 1)
                \<and> ?e2 ! i = eterm ene f i + ?e2 ! (i - 1)"
    proof (intro allI impI)
      fix i assume i: "a \<le> i \<and> i < Suc b"
      show "?n2 ! i = nterm ene f i + ?n2 ! (i - 1) \<and> ?e2 ! i = eterm ene f i + ?e2 ! (i - 1)"
      proof (cases "i = b")
        case True
        then show ?thesis using b len by simp
      next
        case False
        then have "i < b" using i by simp
        then show ?thesis using rec i b len \<open>1 \<le> a\<close> by simp
      qed
    qed
    ultimately show ?thesis using step len by simp
  qed
qed


lemma accumulated_unscaled:
  assumes "f \<noteq> []" "length f \<le> length ene" "\<forall>x\<in>set ene. 0 < x"
  shows "\<exists>nacc eacc.
           accumulated_particle_info ene f =
             Inr (map (\<lambda>x. x * dlogE_of ene (length f)) nacc,
                  map (\<lambda>x. x * dlogE_of ene (length f)) eacc)
         \<and> length nacc = length f \<and> length eacc = length f
         \<and> nacc ! 0 = f ! 0 * ene ! 0 \<and> eacc ! 0 = 0.5 * f ! 0 * (ene ! 0)\<^sup>2
         \<and> (\<forall>i. 1 \<le> i \<and> i < length f \<longrightarrow>
                nacc ! i = nterm ene f i + nacc ! (i - 1)
              \<and> eacc ! i = eterm ene f i + eacc ! (i - 1))"
proof -
  let ?n = "length f"
  have ne: "ene \<noteq> []" using assms by auto
  have n0: "0 < ?n" using assms by simp
  have mx: "Max (set ene) \<in> set ene" and mn: "Min (set ene) \<in> set ene"
    using ne Max_in [of "set ene"] Min_in [of "set ene"] by simp_all
  have pmx: "0 < Max (set ene)" and pmn: "0 < Min (set ene)"
    using mx mn assms(3) by blast+
  let ?nacc0 = "(replicate ?n (0::real))[0 := f ! 0 * ene ! 0]"
  let ?eacc0 = "(replicate ?n (0::real))[0 := 0.5 * f ! 0 * (ene ! 0)\<^sup>2]"
  obtain nacc eacc where
    run: "acc_loop ene f [1..<?n] (?nacc0, ?eacc0) = Inr (nacc, eacc)"
    and len: "length nacc = ?n" "length eacc = ?n"
    and low: "\<forall>i<1. nacc ! i = ?nacc0 ! i \<and> eacc ! i = ?eacc0 ! i"
    and rec: "\<forall>i. 1 \<le> i \<and> i < ?n \<longrightarrow>
                nacc ! i = nterm ene f i + nacc ! (i - 1)
              \<and> eacc ! i = eterm ene f i + eacc ! (i - 1)"
    using acc_loop_upt [of ?n ene ?n ?nacc0 ?eacc0 1 f] assms(2) by auto
  have "accumulated_particle_info ene f =
          Inr (map (\<lambda>x. x * dlogE_of ene ?n) nacc, map (\<lambda>x. x * dlogE_of ene ?n) eacc)"
    using n0 pmx pmn run
    by (simp add: accumulated_particle_info_def py_max_Max [OF ne] py_min_Min [OF ne]
        math_log10_def dlogE_of_def Let_def)
  moreover have "nacc ! 0 = f ! 0 * ene ! 0" "eacc ! 0 = 0.5 * f ! 0 * (ene ! 0)\<^sup>2"
    using low n0 by simp_all
  ultimately show ?thesis using len rec by blast
qed

lemma dlogE_of_nonneg:
  assumes "ene \<noteq> []" "\<forall>x\<in>set ene. 0 < x"
  shows "0 \<le> dlogE_of ene n"
proof -
  have mn: "Min (set ene) \<in> set ene"
    using assms(1) Min_in [of "set ene"] by simp
  then have "0 < Min (set ene)" using assms(2) by blast
  moreover have "Min (set ene) \<le> Max (set ene)"
    using assms(1) by simp
  ultimately have "log 10 (Min (set ene)) \<le> log 10 (Max (set ene))"
    by simp
  then show ?thesis by (simp add: dlogE_of_def)
qed

text \<open>
  Claim C2. For an energy array \<open>ene\<close> of positive entries and a flux array \<open>f\<close> of the
  same length \<open>n\<close> (\<open>n \<ge> 1\<close>, so that entry 0 exists), \<^verbatim>\<open>accumulated_particle_info\<close>
  returns, and its first result \<open>nacc\<close> satisfies
  \<open>nacc[0] = f[0] * ene[0] * dlogE\<close> and, for every \<open>i \<ge> 1\<close>,
  \<open>nacc[i] = nacc[i-1] + f[i] * (ene[i] + ene[i-1]) / 2 * dlogE\<close>, where
  \<open>dlogE = (log10 (max ene) - log10 (min ene)) / n\<close>.
\<close>

theorem accumulated_count_recurrence:
  assumes "length ene = length f" and "f \<noteq> []" and "\<forall>x\<in>set ene. 0 < x"
  shows "\<exists>nacc eacc.
           accumulated_particle_info ene f = Inr (nacc, eacc)
         \<and> length nacc = length f
         \<and> nacc ! 0 = f ! 0 * ene ! 0 * dlogE_of ene (length f)
         \<and> (\<forall>i. 1 \<le> i \<and> i < length f \<longrightarrow>
                nacc ! i = nacc ! (i - 1)
                         + f ! i * (ene ! i + ene ! (i - 1)) / 2 * dlogE_of ene (length f))"
proof -
  from accumulated_unscaled [of f ene] assms obtain nacc eacc where
    run: "accumulated_particle_info ene f =
             Inr (map (\<lambda>x. x * dlogE_of ene (length f)) nacc,
                  map (\<lambda>x. x * dlogE_of ene (length f)) eacc)"
    and len: "length nacc = length f"
    and first: "nacc ! 0 = f ! 0 * ene ! 0"
    and rec: "\<forall>i. 1 \<le> i \<and> i < length f \<longrightarrow> nacc ! i = nterm ene f i + nacc ! (i - 1)"
    by auto
  let ?d = "dlogE_of ene (length f)"
  let ?r = "map (\<lambda>x. x * ?d) nacc"
  have "?r ! 0 = f ! 0 * ene ! 0 * ?d"
    using len first assms(2) by simp
  moreover have "\<forall>i. 1 \<le> i \<and> i < length f \<longrightarrow>
      ?r ! i = ?r ! (i - 1) + f ! i * (ene ! i + ene ! (i - 1)) / 2 * ?d"
  proof (intro allI impI)
    fix i assume i: "1 \<le> i \<and> i < length f"
    then have "nacc ! i = nterm ene f i + nacc ! (i - 1)" using rec by blast
    moreover have "i < length nacc" "i - 1 < length nacc"
      using i len by auto
    then have "?r ! i = nacc ! i * ?d" "?r ! (i - 1) = nacc ! (i - 1) * ?d"
      by simp_all
    ultimately show "?r ! i = ?r ! (i - 1) + f ! i * (ene ! i + ene ! (i - 1)) / 2 * ?d"
      by (simp add: nterm_def algebra_simps)
  qed
  ultimately show ?thesis using run len by auto
qed

theorem accumulated_count_recurrence_witness:
  "length [1, 10 :: real] = length [2, 4 :: real]
   \<and> (\<exists>nacc eacc.
         accumulated_particle_info [1, 10] [2, 4] = Inr (nacc, eacc)
       \<and> length nacc = length [2, 4 :: real]
       \<and> nacc ! 0 = 2 * 1 * dlogE_of [1, 10] (length [2, 4 :: real])
       \<and> nacc ! 1 = nacc ! 0 + 4 * (10 + 1) / 2 * dlogE_of [1, 10] (length [2, 4 :: real]))"
proof -
  have h: "length [1, 10 :: real] = length [2, 4 :: real]" "[2, 4 :: real] \<noteq> []"
    "\<forall>x\<in>set [1, 10 :: real]. 0 < x"
    by simp_all
  from accumulated_count_recurrence [OF h] obtain nacc eacc where
    run: "accumulated_particle_info [1, 10] [2, 4] = Inr (nacc, eacc)"
    and len: "length nacc = length [2, 4 :: real]"
    and first: "nacc ! 0 = [2, 4] ! 0 * [1, 10] ! 0 * dlogE_of [1, 10] (length [2, 4 :: real])"
    and rec: "\<forall>i. 1 \<le> i \<and> i < length [2, 4 :: real] \<longrightarrow>
                nacc ! i = nacc ! (i - 1)
                  + [2, 4] ! i * ([1, 10] ! i + [1, 10] ! (i - 1)) / 2
                    * dlogE_of [1, 10] (length [2, 4 :: real])"
    by blast
  from rec [rule_format, of 1]
  have "nacc ! 1 = nacc ! 0 + 4 * (10 + 1) / 2 * dlogE_of [1, 10] (length [2, 4 :: real])"
    by simp
  moreover from first have "nacc ! 0 = 2 * 1 * dlogE_of [1, 10] (length [2, 4 :: real])"
    by simp
  ultimately show ?thesis using run len h by blast
qed

lemma sorted_scaled_partial_sums:
  fixes xs :: "real list"
  assumes "\<forall>i. 1 \<le> i \<and> i < length xs \<longrightarrow> xs ! (i - 1) \<le> xs ! i" and "0 \<le> d"
  shows "sorted (map (\<lambda>x. x * d) xs)"
proof -
  have "\<forall>i. Suc i < length xs \<longrightarrow> xs ! i * d \<le> xs ! Suc i * d"
  proof (intro allI impI)
    fix i assume "Suc i < length xs"
    then have "xs ! i \<le> xs ! Suc i" using assms(1) [rule_format, of "Suc i"] by simp
    then show "xs ! i * d \<le> xs ! Suc i * d" using assms(2) by (rule mult_right_mono)
  qed
  then show ?thesis by (simp add: sorted_iff_nth_Suc)
qed

text \<open>
  Claim C5. For a monotonically increasing, positive energy array and a flux array of the
  same length with no negative entry (in particular a strictly positive one), both
  sequences returned by \<^verbatim>\<open>accumulated_particle_info\<close>, the accumulated particle number
  and the accumulated particle energy, are non-decreasing.
\<close>

theorem accumulated_monotone:
  assumes "length ene = length f" and "f \<noteq> []"
    and "sorted ene" and "\<forall>x\<in>set ene. 0 < x" and "\<forall>y\<in>set f. 0 \<le> y"
  shows "\<exists>nacc eacc.
           accumulated_particle_info ene f = Inr (nacc, eacc)
         \<and> length nacc = length f \<and> length eacc = length f
         \<and> sorted nacc \<and> sorted eacc"
proof -
  from accumulated_unscaled [of f ene] assms obtain nacc eacc where
    run: "accumulated_particle_info ene f =
             Inr (map (\<lambda>x. x * dlogE_of ene (length f)) nacc,
                  map (\<lambda>x. x * dlogE_of ene (length f)) eacc)"
    and len: "length nacc = length f" "length eacc = length f"
    and rec: "\<forall>i. 1 \<le> i \<and> i < length f \<longrightarrow>
                nacc ! i = nterm ene f i + nacc ! (i - 1)
              \<and> eacc ! i = eterm ene f i + eacc ! (i - 1)"
    by auto
  have ne: "ene \<noteq> []" using assms by auto
  have d: "0 \<le> dlogE_of ene (length f)"
    using dlogE_of_nonneg [OF ne assms(4)] .
  have terms: "0 \<le> nterm ene f i \<and> 0 \<le> eterm ene f i" if i: "1 \<le> i" "i < length f" for i
  proof -
    have fi: "0 \<le> f ! i" using assms(5) i by simp
    have ei: "0 < ene ! i" "0 < ene ! (i - 1)" using assms(1,4) i by simp_all
    have "ene ! (i - 1) \<le> ene ! i"
      using assms(1,3) i by (simp add: sorted_iff_nth_mono)
    then have "0 \<le> ene ! i - ene ! (i - 1)" by simp
    then show ?thesis using fi ei by (simp add: nterm_def eterm_def)
  qed
  have "\<forall>i. 1 \<le> i \<and> i < length nacc \<longrightarrow> nacc ! (i - 1) \<le> nacc ! i"
    using rec terms len by fastforce
  then have "sorted (map (\<lambda>x. x * dlogE_of ene (length f)) nacc)"
    using d by (rule sorted_scaled_partial_sums)
  moreover have "\<forall>i. 1 \<le> i \<and> i < length eacc \<longrightarrow> eacc ! (i - 1) \<le> eacc ! i"
    using rec terms len by fastforce
  then have "sorted (map (\<lambda>x. x * dlogE_of ene (length f)) eacc)"
    using d by (rule sorted_scaled_partial_sums)
  ultimately show ?thesis using run len by simp
qed

theorem accumulated_monotone_witness:
  "length [1, 10 :: real] = length [2, 4 :: real] \<and> sorted [1, 10 :: real]
   \<and> (\<exists>nacc eacc.
         accumulated_particle_info [1, 10] [2, 4] = Inr (nacc, eacc)
       \<and> length nacc = length [2, 4 :: real] \<and> length eacc = length [2, 4 :: real] \<and> sorted nacc \<and> sorted eacc)"
proof -
  have h: "length [1, 10 :: real] = length [2, 4 :: real]" "[2, 4 :: real] \<noteq> []"
    "sorted [1, 10 :: real]" "\<forall>x\<in>set [1, 10 :: real]. 0 < x"
    "\<forall>y\<in>set [2, 4 :: real]. 0 \<le> y"
    by simp_all
  from accumulated_monotone [OF h] h show ?thesis by blast
qed

section \<open>Properties of the particle-file reader\<close>

lemma memmap_ok:
  assumes "offset + n * isize \<le> length file" and "file \<noteq> []"
  shows "memmap dec isize file offset n =
           Inr (map (\<lambda>i. dec (take isize (drop (offset + i * isize) file))) [0..<n])"
  using assms by (simp add: memmap_def)

lemma memmap_Inr_length:
  "memmap dec isize file offset n = Inr xs \<Longrightarrow> offset + n * isize \<le> length file"
  by (simp add: memmap_def split: if_splits)

lemma read_boilerplate_ok:
  assumes "23 \<le> length file"
  shows "read_boilerplate f32 f64 file = Inr ()"
proof -
  have "file \<noteq> []" using assms by auto
  then show ?thesis
    using assms by (simp add: read_boilerplate_def Let_def memmap_ok)
qed

lemma read_particle_header_offset:
  assumes "read_particle_header f32 file = Inr (v0, ph, off)"
  shows "off = 115"
  using assms
  by (auto simp: read_particle_header_def Let_def ebind_def split: sum.splits)

lemma read_particle_header_ok:
  assumes "115 \<le> length file"
  shows "\<exists>v0 ph. read_particle_header f32 file = Inr (v0, ph, 115) \<and> ph_dim ph = stored_dim file"
proof -
  have ne: "file \<noteq> []" using assms by auto
  have "memmap le_sint 4 file 103 3 =
          Inr (map (\<lambda>i. le_sint (take 4 (drop (103 + i * 4) file))) [0..<3])"
    using assms ne by (simp add: memmap_ok)
  moreover have "map (\<lambda>i. le_sint (take 4 (drop (103 + i * 4) file))) [0..<3] ! 2 = stored_dim file"
    by (simp add: stored_dim_def)
  ultimately show ?thesis
    using assms ne by (simp add: read_particle_header_def Let_def memmap_ok)
qed

lemma np_fromfile_exact:
  assumes "0 \<le> count" and "pos + 32 * nat count \<le> length file"
  shows "np_fromfile dec 32 file pos count =
           map (\<lambda>i. dec (take 32 (drop (pos + 32 * i) file))) [0..<nat count]"
proof -
  have "32 * nat count \<le> length file - pos" using assms(2) by simp
  then have "nat count \<le> (length file - pos) div 32"
    by (simp add: less_eq_div_iff_mult_less_eq mult.commute)
  then show ?thesis
    using assms(1) by (simp add: np_fromfile_def Let_def min_def mult.commute)
qed

lemma stored_dim_append:
  assumes "115 \<le> length file"
  shows "stored_dim (file @ trailing) = stored_dim file"
  using assms by (simp add: stored_dim_def)

lemma record_at_append:
  assumes "start + 32 * Suc i \<le> length file"
  shows "record_at f32 (file @ trailing) start i = record_at f32 file start i"
  using assms by (simp add: record_at_def)

text \<open>
  Claim C1, as the code has it. \<^verbatim>\<open>read_particle_header\<close> returns the offset 115
  (boilerplate 23, the twenty header fields 80, the particle sub-header 12) whenever it
  returns, and \<^verbatim>\<open>read_particle_data\<close> reads the records from there: for a file that
  holds, from byte 115 on, the \<open>dim\<close> records its sub-header announces (\<open>dim \<ge> 0\<close>),
  followed by any trailing bytes, the result is exactly these \<open>dim\<close> contiguous 32-byte
  records; the trailing bytes are ignored.
\<close>

theorem read_particle_data_records:
  assumes "fs fname = Some (content @ trailing)"
    and "0 \<le> stored_dim content"
    and "length content = 115 + 32 * nat (stored_dim content)"
  shows "(\<forall>v0 ph off. read_particle_header fsingle (content @ trailing) = Inr (v0, ph, off) \<longrightarrow> off = 115)
       \<and> (\<exists>v0 ph. read_particle_data fsingle fdouble fs fname =
                      Inr (v0, ph, map (record_at fsingle content 115) [0..<nat (stored_dim content)])
                  \<and> ph_dim ph = stored_dim content)"
proof
  show "\<forall>v0 ph off. read_particle_header fsingle (content @ trailing) = Inr (v0, ph, off) \<longrightarrow> off = 115"
    using read_particle_header_offset by blast
next
  let ?fh = "content @ trailing"
  let ?n = "nat (stored_dim content)"
  have len: "115 \<le> length content" using assms(3) by simp
  then have len': "115 \<le> length ?fh" "23 \<le> length ?fh" by simp_all
  from read_particle_header_ok [OF len'(1), of fsingle] obtain v0 ph where
    hdr: "read_particle_header fsingle ?fh = Inr (v0, ph, 115)"
    and dim: "ph_dim ph = stored_dim content"
    using stored_dim_append [OF len] by auto
  have "115 + 32 * nat (ph_dim ph) \<le> length ?fh"
    using assms(3) dim by simp
  then have "np_fromfile (decode_particle fsingle) 32 ?fh 115 (ph_dim ph) =
          map (\<lambda>i. decode_particle fsingle (take 32 (drop (115 + 32 * i) ?fh))) [0..<nat (ph_dim ph)]"
    using assms(2) dim by (intro np_fromfile_exact) simp_all
  also have "\<dots> = map (record_at fsingle ?fh 115) [0..<?n]"
    by (simp add: record_at_def dim)
  also have "\<dots> = map (record_at fsingle content 115) [0..<?n]"
  proof (rule map_cong [OF refl])
    fix i assume "i \<in> set [0..<?n]"
    then have "115 + 32 * Suc i \<le> length content" using assms(3) by simp
    then show "record_at fsingle ?fh 115 i = record_at fsingle content 115 i"
      by (rule record_at_append)
  qed
  finally have data: "np_fromfile (decode_particle fsingle) 32 ?fh 115 (ph_dim ph) =
      map (record_at fsingle content 115) [0..<?n]" .
  have "read_particle_data fsingle fdouble fs fname =
          Inr (v0, ph, map (record_at fsingle content 115) [0..<?n])"
    using assms(1) data
    by (simp add: read_particle_data_def read_boilerplate_ok [OF len'(2)] hdr Let_def)
  then show "\<exists>v0 ph. read_particle_data fsingle fdouble fs fname =
                      Inr (v0, ph, map (record_at fsingle content 115) [0..<?n])
                  \<and> ph_dim ph = stored_dim content"
    using dim by blast
qed

text \<open>
  The sample content with three trailing bytes: the one record at byte 115 is returned and
  the trailing bytes are dropped.
\<close>

theorem read_particle_data_records_witness:
  "\<exists>v0 ph. read_particle_data ieee_single ieee_double (\<lambda>_. Some (sample_particle_file @ [9, 9, 9]))
              ''eparticle.5.0''
            = Inr (v0, ph, [\<lparr>ptl_dxyz = (0, 0, 0), ptl_icell = 7, ptl_u = (0, 0, 0), ptl_q = 0\<rparr>])
          \<and> ph_dim ph = 1"
proof -
  have d: "stored_dim sample_particle_file = 1"
    by code_simp
  have l: "length sample_particle_file = 115 + 32 * nat (stored_dim sample_particle_file)"
    unfolding d by (simp add: sample_particle_file_def)
  have r: "record_at ieee_single sample_particle_file 115 0 =
             \<lparr>ptl_dxyz = (0, 0, 0), ptl_icell = 7, ptl_u = (0, 0, 0), ptl_q = 0\<rparr>"
    by code_simp
  from read_particle_data_records [where fs = "\<lambda>_. Some (sample_particle_file @ [9, 9, 9])"
      and content = sample_particle_file and trailing = "[9, 9, 9]" and fsingle = ieee_single
      and fdouble = ieee_double and fname = "''eparticle.5.0''", OF refl _ l]
  show ?thesis by (simp add: d r)
qed

text \<open>
  The claim as stated fails: on the sample file the header reader returns the offset 115,
  not 103, and the record returned (cell index 7) is the one at byte 115, not the 32 bytes
  at byte 103.
\<close>

theorem read_particle_data_offset_counterexample:
  "read_particle_data ieee_single ieee_double (\<lambda>_. Some sample_particle_file) ''eparticle.5.0''
     = Inr (\<lparr>v0_version = 0, v0_type = 0, v0_nt = 0, v0_nx = 0, v0_ny = 0,
              v0_nz = 0, v0_dt = 0, v0_dx = 0, v0_dy = 0, v0_dz = 0, v0_x0 = 0,
              v0_y0 = 0, v0_z0 = 0, v0_cvac = 0, v0_eps0 = 0, v0_damp = 0,
              v0_rank = 0, v0_ndom = 0, v0_spid = 0, v0_spqm = 0\<rparr>,
            \<lparr>ph_size = 32, ph_ndim = 1, ph_dim = 1\<rparr>,
            [\<lparr>ptl_dxyz = (0, 0, 0), ptl_icell = 7, ptl_u = (0, 0, 0), ptl_q = 0\<rparr>])
   \<and> record_at ieee_single sample_particle_file 103 0
       \<noteq> \<lparr>ptl_dxyz = (0, 0, 0), ptl_icell = 7, ptl_u = (0, 0, 0), ptl_q = 0\<rparr>
   \<and> read_particle_header ieee_single sample_particle_file
     = Inr (\<lparr>v0_version = 0, v0_type = 0, v0_nt = 0, v0_nx = 0, v0_ny = 0,
              v0_nz = 0, v0_dt = 0, v0_dx = 0, v0_dy = 0, v0_dz = 0, v0_x0 = 0,
              v0_y0 = 0, v0_z0 = 0, v0_cvac = 0, v0_eps0 = 0, v0_damp = 0,
              v0_rank = 0, v0_ndom = 0, v0_spid = 0, v0_spqm = 0\<rparr>,
            \<lparr>ph_size = 32, ph_ndim = 1, ph_dim = 1\<rparr>, 115)"
  by code_simp

section \<open>Properties of the velocity-distribution reader\<close>

lemma memmap_f64:
  assumes "offset + n * 8 \<le> length fh" and "fh \<noteq> []"
  shows "memmap f64 8 fh offset n = Inr (f64_array f64 fh offset n)"
  using assms by (simp add: memmap_def f64_array_def)

lemma length_f64_array [simp]: "length (f64_array f64 fh offset n) = n"
  by (simp add: f64_array_def)

lemma nonzero_min_shifted:
  assumes "a \<noteq> []" and "\<forall>x\<in>set a. 0 \<le> x"
  shows "nonzero_min (map (\<lambda>x. x + 1 / 100) a) = Inr (Min (set (map (\<lambda>x. x + 1 / 100) a)))"
proof -
  have "filter (\<lambda>x. x \<noteq> 0) (map (\<lambda>x. x + 1 / 100) a) = map (\<lambda>x. x + 1 / 100) a"
    using assms(2) by (induction a) (auto simp: add_nonneg_eq_0_iff)
  then show ?thesis
    using assms(1) by (simp add: nonzero_min_def py_min_Min)
qed

lemma nonzero_max_shifted:
  assumes "a \<noteq> []" and "\<forall>x\<in>set a. 0 \<le> x"
  shows "nonzero_max (map (\<lambda>x. x + 1 / 100) a) = Inr (Max (set (map (\<lambda>x. x + 1 / 100) a)))"
proof -
  have "filter (\<lambda>x. x \<noteq> 0) (map (\<lambda>x. x + 1 / 100) a) = map (\<lambda>x. x + 1 / 100) a"
    using assms(2) by (induction a) (auto simp: add_nonneg_eq_0_iff)
  then show ?thesis
    using assms(1) by (simp add: nonzero_max_def py_max_Max)
qed

lemma upt_2: "[0..<2] = [0, 1]"
  by (simp add: upt_rec numeral_2_eq_2)

lemma f64_array_nonempty: "0 < n \<Longrightarrow> f64_array f64 fh offset n \<noteq> []"
  by (simp add: f64_array_def)

text \<open>
  Claim C7. Let the two files of the species exist and hold \<open>n > 0\<close> bins with
  histograms without negative entries, and let \<open>mime > 0\<close>. Then
  \<^verbatim>\<open>read_velocity_distribution\<close> returns, and for the species \<^verbatim>\<open>'h'\<close> the bin arrays
  \<^verbatim>\<open>vbins_short\<close>, \<^verbatim>\<open>vbins_long\<close> and the bounds \<^verbatim>\<open>vmin\<close>, \<^verbatim>\<open>vmax\<close> it returns are the
  stored values divided by \<open>sqrt mime\<close>, while for every other species, \<^verbatim>\<open>'e'\<close> among
  them, they are the stored values unchanged.
\<close>

theorem read_velocity_distribution_units:
  assumes "fs (vdist_fname fpath ''vdist_2d-'' species tframe) = Some f2"
    and "fs (vdist_fname fpath ''vdist_1d-'' species tframe) = Some f1"
    and "0 < n" and "le_sint (take 4 (drop 32 f2)) = int n"
    and "36 + 24 * n + 112 * (n * n) \<le> length f2"
    and "36 + 48 * n \<le> length f1"
    and "0 < mime pic_info"
    and "\<forall>h\<in>set (stored_histograms fdouble f2 f1 n). \<forall>x\<in>set h. 0 \<le> x"
  shows "\<exists>fv. read_velocity_distribution fsingle fdouble fs species tframe pic_info fpath = Inr fv
          \<and> fv_vbins_short fv =
              (if species = ''h''
               then map (\<lambda>x. x / sqrt (mime pic_info)) (f64_array fdouble f2 36 n)
               else f64_array fdouble f2 36 n)
          \<and> fv_vbins_long fv =
              (if species = ''h''
               then map (\<lambda>x. x / sqrt (mime pic_info)) (f64_array fdouble f2 (36 + 8 * n) (2 * n))
               else f64_array fdouble f2 (36 + 8 * n) (2 * n))
          \<and> fv_vmin fv =
              (if species = ''h''
               then fsingle (take 4 (drop 24 f2)) / sqrt (mime pic_info)
               else fsingle (take 4 (drop 24 f2)))
          \<and> fv_vmax fv =
              (if species = ''h''
               then fsingle (take 4 (drop 28 f2)) / sqrt (mime pic_info)
               else fsingle (take 4 (drop 28 f2)))"
proof -
  have ne: "f2 \<noteq> []" "f1 \<noteq> []" using assms(5,6) by auto
  have l36: "36 \<le> length f2" using assms(5) by simp
  let ?o0 = "3 * 4 + 3 * 4 + 2 * 4 + 4 :: nat"
  let ?o1 = "?o0 + 8 * n"
  let ?o2 = "?o1 + 8 * n * 2"
  let ?o3 = "?o2 + 8 * n * 2 * n"
  let ?o4 = "?o3 + 8 * 2 * n * 2 * n"
  let ?o5 = "?o4 + 8 * 2 * n * 2 * n"
  let ?p0 = "9 * 4 + 8 * n * 3"
  let ?p1 = "?p0 + 8 * n * 2"
  let ?h0 = "f64_array fdouble f2 (36 + 24 * n) (2 * (n * n))"
  let ?h1 = "f64_array fdouble f2 (36 + 24 * n + 16 * (n * n)) (4 * (n * n))"
  let ?h2 = "f64_array fdouble f2 (36 + 24 * n + 48 * (n * n)) (4 * (n * n))"
  let ?h3 = "f64_array fdouble f2 (36 + 24 * n + 80 * (n * n)) (4 * (n * n))"
  let ?h4 = "f64_array fdouble f1 (36 + 24 * n) (2 * n)"
  let ?h5 = "f64_array fdouble f1 (36 + 40 * n) n"
  have m0: "memmap fdouble 8 f2 ?o0 n = Inr (f64_array fdouble f2 36 n)"
    using assms(5) ne by (subst memmap_f64) simp_all
  have m1: "memmap fdouble 8 f2 ?o1 (2 * n) = Inr (f64_array fdouble f2 (36 + 8 * n) (2 * n))"
    using assms(5) ne by (subst memmap_f64) simp_all
  have m2: "memmap fdouble 8 f2 ?o2 (n * (2 * n)) = Inr ?h0"
    using assms(5) ne by (subst memmap_f64) (simp_all add: algebra_simps)
  have m3: "memmap fdouble 8 f2 ?o3 (2 * n * (2 * n)) = Inr ?h1"
    using assms(5) ne by (subst memmap_f64) (simp_all add: algebra_simps)
  have m4: "memmap fdouble 8 f2 ?o4 (2 * n * (2 * n)) = Inr ?h2"
    using assms(5) ne by (subst memmap_f64) (simp_all add: algebra_simps)
  have m5: "memmap fdouble 8 f2 ?o5 (2 * n * (2 * n)) = Inr ?h3"
    using assms(5) ne by (subst memmap_f64) (simp_all add: algebra_simps)
  have q0: "memmap fdouble 8 f1 ?p0 (2 * n) = Inr ?h4"
    using assms(6) ne by (subst memmap_f64) (simp_all add: algebra_simps)
  have q1: "memmap fdouble 8 f1 ?p1 n = Inr ?h5"
    using assms(6) ne by (subst memmap_f64) (simp_all add: algebra_simps)
  have c0: "memmap fsingle 4 f2 0 3 = Inr (map (\<lambda>i. fsingle (take 4 (drop (0 + i * 4) f2))) [0..<3])"
    and c1: "memmap fsingle 4 f2 (3 * 4) 3 =
               Inr (map (\<lambda>i. fsingle (take 4 (drop (3 * 4 + i * 4) f2))) [0..<3])"
    and c2: "memmap fsingle 4 f2 (3 * 4 + 3 * 4) 2 =
               Inr [fsingle (take 4 (drop 24 f2)), fsingle (take 4 (drop 28 f2))]"
    and c3: "memmap le_sint 4 f2 (3 * 4 + 3 * 4 + 2 * 4) 1 = Inr [int n]"
    using l36 ne assms(4) by (simp_all add: memmap_ok upt_2)
  have sq: "math_sqrt (mime pic_info) = Inr (sqrt (mime pic_info))"
    using assms(7) by (simp add: math_sqrt_def)
  have pos: "0 < n * n" using assms(3) by simp
  have nn: "\<forall>x\<in>set ?h0. 0 \<le> x" "\<forall>x\<in>set ?h1. 0 \<le> x" "\<forall>x\<in>set ?h2. 0 \<le> x"
    "\<forall>x\<in>set ?h3. 0 \<le> x" "\<forall>x\<in>set ?h4. 0 \<le> x" "\<forall>x\<in>set ?h5. 0 \<le> x"
    using assms(8) by (simp_all add: stored_histograms_def)
  have nz: "?h0 \<noteq> []" "?h1 \<noteq> []" "?h2 \<noteq> []" "?h3 \<noteq> []" "?h4 \<noteq> []" "?h5 \<noteq> []"
    using assms(3) pos by (simp_all add: f64_array_nonempty)
  obtain lo0 hi0 where lo0: "nonzero_min (map (\<lambda>x. x + 1 / 100) ?h0) = Inr lo0"
    and hi0: "nonzero_max (map (\<lambda>x. x + 1 / 100) ?h0) = Inr hi0"
    using nonzero_min_shifted [OF nz(1) nn(1)] nonzero_max_shifted [OF nz(1) nn(1)]
    by blast
  obtain lo1 hi1 where lo1: "nonzero_min (map (\<lambda>x. x + 1 / 100) ?h1) = Inr lo1"
    and hi1: "nonzero_max (map (\<lambda>x. x + 1 / 100) ?h1) = Inr hi1"
    using nonzero_min_shifted [OF nz(2) nn(2)] nonzero_max_shifted [OF nz(2) nn(2)]
    by blast
  obtain lo2 hi2 where lo2: "nonzero_min (map (\<lambda>x. x + 1 / 100) ?h2) = Inr lo2"
    and hi2: "nonzero_max (map (\<lambda>x. x + 1 / 100) ?h2) = Inr hi2"
    using nonzero_min_shifted [OF nz(3) nn(3)] nonzero_max_shifted [OF nz(3) nn(3)]
    by blast
  obtain lo3 hi3 where lo3: "nonzero_min (map (\<lambda>x. x + 1 / 100) ?h3) = Inr lo3"
    and hi3: "nonzero_max (map (\<lambda>x. x + 1 / 100) ?h3) = Inr hi3"
    using nonzero_min_shifted [OF nz(4) nn(4)] nonzero_max_shifted [OF nz(4) nn(4)]
    by blast
  obtain lo4 hi4 where lo4: "nonzero_min (map (\<lambda>x. x + 1 / 100) ?h4) = Inr lo4"
    and hi4: "nonzero_max (map (\<lambda>x. x + 1 / 100) ?h4) = Inr hi4"
    using nonzero_min_shifted [OF nz(5) nn(5)] nonzero_max_shifted [OF nz(5) nn(5)]
    by blast
  obtain lo5 hi5 where lo5: "nonzero_min (map (\<lambda>x. x + 1 / 100) ?h5) = Inr lo5"
    and hi5: "nonzero_max (map (\<lambda>x. x + 1 / 100) ?h5) = Inr hi5"
    using nonzero_min_shifted [OF nz(6) nn(6)] nonzero_max_shifted [OF nz(6) nn(6)]
    by blast
  show ?thesis
    using assms(1,2) c0 c1 c2 c3 m0 m1 m2 m3 m4 m5 q0 q1
    by (simp add: read_velocity_distribution_def Let_def sq
        lo0 lo1 lo2 lo3 lo4 lo5 hi0 hi1 hi2 hi3 hi4 hi5)
qed

lemma sqrt_25: "sqrt 25 = 5"
  by (rule real_sqrt_unique) simp_all

lemma length_sample_vdist_head: "length sample_vdist_head = 60"
  by (simp add: sample_vdist_head_def)

lemma sample_short: "f64_array ieee_double sample_vdist_2d 36 1 = [5]"
  by (simp add: f64_array_def sample_vdist_2d_def sample_vdist_head_def
      ieee_double_def ieee_value_def le_uint_def Let_def)

lemma sample_long: "f64_array ieee_double sample_vdist_2d (36 + 8 * 1) (2 * 1) = [-5, 5]"
  by (simp add: f64_array_def sample_vdist_2d_def sample_vdist_head_def
      ieee_double_def ieee_value_def le_uint_def Let_def upt_2)

lemma sample_vmin: "ieee_single (take 4 (drop 24 sample_vdist_2d)) = 0"
  by (simp add: sample_vdist_2d_def sample_vdist_head_def ieee_single_def ieee_value_def
      le_uint_def Let_def)

lemma sample_vmax: "ieee_single (take 4 (drop 28 sample_vdist_2d)) = 5"
  by (simp add: sample_vdist_2d_def sample_vdist_head_def ieee_single_def ieee_value_def
      le_uint_def Let_def)

lemma sample_nbins: "le_sint (take 4 (drop 32 sample_vdist_2d)) = int 1"
  by (simp add: sample_vdist_2d_def sample_vdist_head_def le_sint_def le_uint_def Let_def)

lemma le_uint_zeros: "le_uint (replicate k 0) = 0"
  by (induction k) (simp_all add: le_uint_def)

lemma ieee_double_zeros: "ieee_double (replicate k 0) = 0"
  by (simp add: ieee_double_def ieee_value_def le_uint_zeros Let_def)

lemma f64_array_zero_block:
  assumes "length pre \<le> off" and "off + 8 * n \<le> length pre + m"
  shows "f64_array ieee_double (pre @ replicate m 0) off n = replicate n 0"
proof -
  have "ieee_double (take 8 (drop (off + i * 8) (pre @ replicate m 0))) = 0" if "i < n" for i
    using assms that by (simp add: ieee_double_zeros)
  then have "map (\<lambda>i. ieee_double (take 8 (drop (off + i * 8) (pre @ replicate m 0)))) [0..<n]
             = map (\<lambda>i. 0) [0..<n]"
    by (intro map_cong) simp_all
  then show ?thesis by (simp add: f64_array_def map_replicate_const)
qed

lemma sample_hist:
  "\<forall>h\<in>set (stored_histograms ieee_double sample_vdist_2d sample_vdist_1d 1). \<forall>x\<in>set h. 0 \<le> x"
proof -
  have "f64_array ieee_double sample_vdist_2d off k = replicate k 0"
    if "60 \<le> off" "off + 8 * k \<le> 172" for off k
    unfolding sample_vdist_2d_def
    using that by (intro f64_array_zero_block) (simp_all add: length_sample_vdist_head)
  moreover have "f64_array ieee_double sample_vdist_1d off k = replicate k 0"
    if "off + 8 * k \<le> 84" for off k
    using that f64_array_zero_block [of "[]" off k 84] by (simp add: sample_vdist_1d_def)
  ultimately show ?thesis
    by (simp add: stored_histograms_def)
qed

lemma sample_vdist_names:
  "sample_vdist_fs ''h'' (vdist_fname ''../vdistributions/'' ''vdist_2d-'' ''h'' 10)
     = Some sample_vdist_2d"
  "sample_vdist_fs ''h'' (vdist_fname ''../vdistributions/'' ''vdist_1d-'' ''h'' 10)
     = Some sample_vdist_1d"
  "sample_vdist_fs ''e'' (vdist_fname ''../vdistributions/'' ''vdist_2d-'' ''e'' 10)
     = Some sample_vdist_2d"
  "sample_vdist_fs ''e'' (vdist_fname ''../vdistributions/'' ''vdist_1d-'' ''e'' 10)
     = Some sample_vdist_1d"
  by (simp_all add: sample_vdist_fs_def vdist_fname_def str_int_def digit_char_def)

lemma sample_vdist_lengths:
  "36 + 24 * 1 + 112 * (1 * 1) \<le> length sample_vdist_2d"
  "36 + 48 * 1 \<le> length sample_vdist_1d"
  by (simp_all add: sample_vdist_2d_def sample_vdist_1d_def length_sample_vdist_head)

text \<open>
  With \<open>mime = 25\<close> the stored value \<open>5.0\<close> is returned as \<open>1.0\<close> for the species
  \<^verbatim>\<open>'h'\<close> and as \<open>5.0\<close> for the species \<^verbatim>\<open>'e'\<close>.
\<close>

theorem read_velocity_distribution_units_witness:
  "(\<exists>fv. read_velocity_distribution ieee_single ieee_double (sample_vdist_fs ''h'') ''h'' 10
            \<lparr>nx = 1, ny = 1, nz = 1, nppc = 1, mime = 25\<rparr> ''../vdistributions/'' = Inr fv
         \<and> fv_vbins_short fv = [1] \<and> fv_vbins_long fv = [- 1, 1]
         \<and> fv_vmin fv = 0 \<and> fv_vmax fv = 1)
   \<and> (\<exists>fv. read_velocity_distribution ieee_single ieee_double (sample_vdist_fs ''e'') ''e'' 10
            \<lparr>nx = 1, ny = 1, nz = 1, nppc = 1, mime = 25\<rparr> ''../vdistributions/'' = Inr fv
         \<and> fv_vbins_short fv = [5] \<and> fv_vbins_long fv = [- 5, 5]
         \<and> fv_vmin fv = 0 \<and> fv_vmax fv = 5)"
proof -
  let ?pic = "\<lparr>nx = 1, ny = 1, nz = 1, nppc = 1, mime = 25 :: real\<rparr>"
  have pos: "0 < (1 :: nat)" "0 < mime ?pic" by simp_all
  note h = read_velocity_distribution_units [where fsingle = ieee_single
      and fdouble = ieee_double and fpath = "''../vdistributions/''" and tframe = 10
      and pic_info = ?pic and n = 1 and species = "''h''",
      OF sample_vdist_names(1) sample_vdist_names(2) pos(1) sample_nbins
        sample_vdist_lengths(1) sample_vdist_lengths(2) pos(2) sample_hist]
  note e = read_velocity_distribution_units [where fsingle = ieee_single
      and fdouble = ieee_double and fpath = "''../vdistributions/''" and tframe = 10
      and pic_info = ?pic and n = 1 and species = "''e''",
      OF sample_vdist_names(3) sample_vdist_names(4) pos(1) sample_nbins
        sample_vdist_lengths(1) sample_vdist_lengths(2) pos(2) sample_hist]
  from h e sample_short sample_long show ?thesis
    by (simp add: sample_vmin sample_vmax sqrt_25)
qed

lemma count_list_map:
  "count_list (map g xs) c = length (filter (\<lambda>p. g p = c) xs)"
  by (induction xs) simp_all

lemma length_hist_edges: "length (hist_edges ops nb) = Suc nb"
  by (simp add: hist_edges_def Let_def)

lemma histogram2d_counts:
  assumes "0 < nbins"
  shows "histogram2d ops (map a (filter keep ps)) (map b (filter keep ps)) nbins =
           Inr (counts_of (hist_edges ops (nat nbins)) keep a b ps,
                hist_edges ops (nat nbins), hist_edges ops (nat nbins))"
proof -
  have z: "zip (map a (filter keep ps)) (map b (filter keep ps)) =
           map (\<lambda>p. (a p, b p)) (filter keep ps)"
    by (simp add: zip_map_map zip_same_conv_map)
  have "count_list (map (\<lambda>(x, y). (bin_in es x, bin_in es y)) (map (\<lambda>p. (a p, b p)) (filter keep ps)))
          (Some i, Some j)
        = length (filter (\<lambda>p. keep p \<and> bin_in es (a p) = Some i \<and> bin_in es (b p) = Some j) ps)"
    for es i j
    by (simp add: count_list_map comp_def conj_commute conj_left_commute)
  then show ?thesis
    using assms by (simp add: histogram2d_def Let_def z counts_of_def length_hist_edges)
qed

lemma single_count_length: "length (single_count nb a b) = nb"
  by (simp add: single_count_def)

lemma single_count_row:
  "i < nb \<Longrightarrow> single_count nb a b ! i = (if i = a then (replicate nb 0)[b := 1] else replicate nb 0)"
  by (simp add: single_count_def nth_list_update)

lemma counts_of_single:
  assumes "keep p" and "bin_in edges (a p) = Some k" and "bin_in edges (b p) = Some l"
    and "k < nb" "l < nb" and "length edges = Suc nb"
  shows "counts_of edges keep a b [p] = single_count nb k l"
proof (rule nth_equalityI)
  show "length (counts_of edges keep a b [p]) = length (single_count nb k l)"
    using assms(6) by (simp add: counts_of_def single_count_length)
next
  fix i assume "i < length (counts_of edges keep a b [p])"
  then have i: "i < nb" using assms(6) by (simp add: counts_of_def)
  show "counts_of edges keep a b [p] ! i = single_count nb k l ! i"
  proof (rule nth_equalityI)
    show "length (counts_of edges keep a b [p] ! i) = length (single_count nb k l ! i)"
      using i assms(6) by (simp add: counts_of_def single_count_row)
  next
    fix j assume "j < length (counts_of edges keep a b [p] ! i)"
    then have j: "j < nb" using i assms(6) by (simp add: counts_of_def)
    show "counts_of edges keep a b [p] ! i ! j = single_count nb k l ! i ! j"
      using i j assms by (auto simp: counts_of_def single_count_row nth_list_update)
  qed
qed

lemma hist_edges_exact:
  "hist_edges exact_ops nb = map (\<lambda>k. real k * (2 / real nb) + - 1) [0..<nb] @ [1]"
  by (simp add: hist_edges_def exact_ops_def)

lemma bin_in_half: "bin_in (hist_edges exact_ops 64) (1 / 2) = Some 48"
  unfolding hist_edges_exact by code_simp

lemma hist_edges_half:
  "hist_edges exact_ops 64 ! 48 = 1 / 2 \<and> 1 / 2 < hist_edges exact_ops 64 ! 49"
  unfolding hist_edges_exact by code_simp

lemma filter_le_sorted:
  "sorted xs \<Longrightarrow> filter (\<lambda>e. e \<le> a) xs = takeWhile (\<lambda>e. e \<le> (a :: real)) xs"
proof (induction xs)
  case Nil
  show ?case by simp
next
  case (Cons x xs)
  show ?case
  proof (cases "x \<le> a")
    case True
    then show ?thesis using Cons by simp
  next
    case False
    then have "filter (\<lambda>e. e \<le> a) xs = []"
      using Cons.prems by (auto simp: filter_empty_conv)
    then show ?thesis using False by simp
  qed
qed

lemma bin_in_sorted:
  assumes "sorted edges" and "edges \<noteq> []" and "edges ! 0 \<le> a" and "a < last edges"
  shows "\<exists>k. bin_in edges a = Some k \<and> Suc k < length edges
              \<and> edges ! k \<le> a \<and> a < edges ! Suc k"
proof -
  let ?t = "takeWhile (\<lambda>e. e \<le> a) edges"
  let ?n = "length ?t"
  have f: "filter (\<lambda>e. e \<le> a) edges = ?t"
    using assms(1) by (rule filter_le_sorted)
  have pos: "0 < ?n"
    using assms(2,3) by (cases edges) simp_all
  have lt: "?n < length edges"
  proof (rule ccontr)
    assume "\<not> ?n < length edges"
    then have "?t = edges"
      using takeWhile_eq_take [of "\<lambda>e. e \<le> a" edges] by simp
    then have "\<forall>x\<in>set edges. x \<le> a"
      by (simp add: takeWhile_eq_all_conv)
    then have "last edges \<le> a"
      using assms(2) by simp
    then show False using assms(4) by simp
  qed
  have "?t ! (?n - 1) \<in> set ?t"
    using pos by (intro nth_mem) simp
  moreover have "?t ! (?n - 1) = edges ! (?n - 1)"
    using pos by (intro takeWhile_nth) simp
  ultimately have lo: "edges ! (?n - 1) \<le> a"
    using set_takeWhileD [of "edges ! (?n - 1)" "\<lambda>e. e \<le> a" edges] by simp
  have hi: "a < edges ! ?n"
    using nth_length_takeWhile [OF lt] by simp
  have "1 \<le> ?n \<and> ?n \<le> length edges - 1"
    using pos lt by arith
  then have "bin_in edges a = Some (?n - 1)"
    using assms(4) by (simp add: bin_in_def f Let_def)
  then show ?thesis
    using pos lt lo hi by (intro exI [of _ "?n - 1"]) simp
qed

lemma calc_velocity_distribution_counts:
  assumes "0 < mime pic_info" and "0 < nbins"
    and "keep = (\<lambda>p. case particle_xyz ops v0 (f64_sqrt ops (mime pic_info)) p of
                        (x, y, z) \<Rightarrow> x \<in> {x0..x1} \<and> y \<in> {y0..y1} \<and> z \<in> {z0..z1})"
  shows "calc_velocity_distribution ops v0 ph ptl pic_info ((x0, x1), (y0, y1), (z0, z1)) nbins =
           Inr (counts_of (hist_edges ops (nat nbins)) keep ptl_uy ptl_ux ptl,
                counts_of (hist_edges ops (nat nbins)) keep ptl_uz ptl_ux ptl,
                counts_of (hist_edges ops (nat nbins)) keep ptl_uz ptl_uy ptl,
                hist_edges ops (nat nbins), hist_edges ops (nat nbins))"
proof -
  have fields: "(\<lambda>p. fst (ptl_u p)) = ptl_ux" "(\<lambda>p. fst (snd (ptl_u p))) = ptl_uy"
    "(\<lambda>p. snd (snd (ptl_u p))) = ptl_uz"
    by (simp_all add: fun_eq_iff ptl_ux_def ptl_uy_def ptl_uz_def)
  show ?thesis
    unfolding assms(3)
    using assms(1)
    by (simp add: calc_velocity_distribution_def Let_def fields
        histogram2d_counts [OF assms(2)])
qed

text \<open>
  Claim C6. Let \<open>mime > 0\<close> with a nonzero computed square root, and let the bin number
  be positive with sorted computed edges. Whatever the rounding of the floating-point
  operations, \<^verbatim>\<open>calc_velocity_distribution\<close> returns the three histograms that count
  exactly the particles whose reconstructed \<open>x\<close>, \<open>y\<close> and \<open>z\<close>, as the program computes
  them, lie in the closed intervals \<open>[x0, x1]\<close>, \<open>[y0, y1]\<close>, \<open>[z0, z1]\<close> of \<^verbatim>\<open>corners\<close>,
  each in the bin of its velocity pair. For 64 bins whose first computed edge is not above
  \<open>0.5\<close>, and a single particle with \<open>u = (0.5, 0.5, 0.5)\<close> inside the box, there is one
  bin \<open>k\<close> whose edges \<open>[e\<^sub>k, e\<^sub>k\<^sub>+\<^sub>1)\<close> contain \<open>0.5\<close>, and each of the three histograms
  holds the count 1 in bin \<open>(k, k)\<close> and 0 in every other bin; when the 65 edges, which
  are multiples of \<open>1/32\<close>, are computed without rounding, \<open>k\<close> is 48.
\<close>

theorem calc_velocity_distribution_mask:
  assumes "0 < mime pic_info" and "f64_sqrt ops (mime pic_info) \<noteq> 0"
    and "0 < nbins" and "sorted (hist_edges ops (nat nbins))"
    and "keep = (\<lambda>p. case particle_xyz ops v0 (f64_sqrt ops (mime pic_info)) p of
                        (x, y, z) \<Rightarrow> x \<in> {x0..x1} \<and> y \<in> {y0..y1} \<and> z \<in> {z0..z1})"
  shows "calc_velocity_distribution ops v0 ph ptl pic_info ((x0, x1), (y0, y1), (z0, z1)) nbins =
           Inr (counts_of (hist_edges ops (nat nbins)) keep ptl_uy ptl_ux ptl,
                counts_of (hist_edges ops (nat nbins)) keep ptl_uz ptl_ux ptl,
                counts_of (hist_edges ops (nat nbins)) keep ptl_uz ptl_uy ptl,
                hist_edges ops (nat nbins), hist_edges ops (nat nbins))
       \<and> (nbins = 64 \<and> hist_edges ops 64 ! 0 \<le> 1 / 2
            \<and> ptl = [p] \<and> ptl_u p = (1 / 2, 1 / 2, 1 / 2) \<and> keep p \<longrightarrow>
            (\<exists>k<64.
               calc_velocity_distribution ops v0 ph ptl pic_info ((x0, x1), (y0, y1), (z0, z1)) nbins =
                 Inr (single_count 64 k k, single_count 64 k k, single_count 64 k k,
                      hist_edges ops 64, hist_edges ops 64)
               \<and> hist_edges ops 64 ! k \<le> 1 / 2 \<and> 1 / 2 < hist_edges ops 64 ! Suc k
               \<and> (hist_edges ops 64 = hist_edges exact_ops 64 \<longrightarrow> k = 48)))"
proof (intro conjI impI)
  show "calc_velocity_distribution ops v0 ph ptl pic_info ((x0, x1), (y0, y1), (z0, z1)) nbins =
           Inr (counts_of (hist_edges ops (nat nbins)) keep ptl_uy ptl_ux ptl,
                counts_of (hist_edges ops (nat nbins)) keep ptl_uz ptl_ux ptl,
                counts_of (hist_edges ops (nat nbins)) keep ptl_uz ptl_uy ptl,
                hist_edges ops (nat nbins), hist_edges ops (nat nbins))"
    using assms(1,3,5) by (rule calc_velocity_distribution_counts)
next
  assume a: "nbins = 64 \<and> hist_edges ops 64 ! 0 \<le> 1 / 2
            \<and> ptl = [p] \<and> ptl_u p = (1 / 2, 1 / 2, 1 / 2) \<and> keep p"
  from a have u: "ptl_ux p = 1 / 2" "ptl_uy p = 1 / 2" "ptl_uz p = 1 / 2"
    by (simp_all add: ptl_ux_def ptl_uy_def ptl_uz_def)
  have srt: "sorted (hist_edges ops 64)"
    using assms(4) a by simp
  have ne: "hist_edges ops 64 \<noteq> []" and lst: "(1 / 2 :: real) < last (hist_edges ops 64)"
    by (simp_all add: hist_edges_def Let_def)
  from a have fst: "hist_edges ops 64 ! 0 \<le> 1 / 2" by simp
  from bin_in_sorted [OF srt ne fst lst]
  obtain k where k: "bin_in (hist_edges ops 64) (1 / 2) = Some k"
    and kl: "Suc k < length (hist_edges ops 64)"
    and lo: "hist_edges ops 64 ! k \<le> 1 / 2" and hi: "1 / 2 < hist_edges ops 64 ! Suc k"
    by blast
  from kl have k64: "k < 64" by (simp add: length_hist_edges)
  have one: "counts_of (hist_edges ops 64) keep a b [p] = single_count 64 k k"
    if "a p = 1 / 2" "b p = 1 / 2" for a b
  proof -
    have "bin_in (hist_edges ops 64) (a p) = Some k" "bin_in (hist_edges ops 64) (b p) = Some k"
      unfolding that by (rule k)+
    then show ?thesis
      using a k64 by (intro counts_of_single) (simp_all add: length_hist_edges)
  qed
  have "calc_velocity_distribution ops v0 ph ptl pic_info ((x0, x1), (y0, y1), (z0, z1)) nbins =
           Inr (counts_of (hist_edges ops (nat nbins)) keep ptl_uy ptl_ux ptl,
                counts_of (hist_edges ops (nat nbins)) keep ptl_uz ptl_ux ptl,
                counts_of (hist_edges ops (nat nbins)) keep ptl_uz ptl_uy ptl,
                hist_edges ops (nat nbins), hist_edges ops (nat nbins))"
    using assms(1,3,5) by (rule calc_velocity_distribution_counts)
  then have c: "calc_velocity_distribution ops v0 ph ptl pic_info ((x0, x1), (y0, y1), (z0, z1)) nbins =
              Inr (single_count 64 k k, single_count 64 k k, single_count 64 k k,
                   hist_edges ops 64, hist_edges ops 64)"
    using a by (simp add: one u)
  have "k = 48" if e: "hist_edges ops 64 = hist_edges exact_ops 64"
    using k bin_in_half unfolding e by simp
  with c lo hi k64
  show "\<exists>k<64.
               calc_velocity_distribution ops v0 ph ptl pic_info ((x0, x1), (y0, y1), (z0, z1)) nbins =
                 Inr (single_count 64 k k, single_count 64 k k, single_count 64 k k,
                      hist_edges ops 64, hist_edges ops 64)
               \<and> hist_edges ops 64 ! k \<le> 1 / 2 \<and> 1 / 2 < hist_edges ops 64 ! Suc k
               \<and> (hist_edges ops 64 = hist_edges exact_ops 64 \<longrightarrow> k = 48)"
    by blast
qed

lemma sample_particle_xyz: "particle_xyz exact_ops sample_v0 5 sample_particle = (0, 0, 0)"
  by (simp add: particle_xyz_def sample_v0_def sample_particle_def exact_ops_def)

lemma sorted_hist_edges_exact: "sorted (hist_edges exact_ops 64)"
proof -
  have "sorted_wrt (\<lambda>x y. real x * (2 / real 64) + - 1 \<le> real y * (2 / real 64) + - 1) [0..<64]"
    by (rule sorted_wrt_mono_rel [OF _ sorted_wrt_upt]) simp
  then show ?thesis
    unfolding hist_edges_exact by (auto simp: sorted_append sorted_map)
qed

text \<open>
  The sample particle lies on the lower corner \<open>(0, 0, 0)\<close> of the box \<open>[0, 1]\<^sup>3\<close>: a
  boundary value, and it is counted, in bin \<open>(48, 48)\<close> of each histogram, whose edges
  are \<open>0.5\<close> and \<open>0.53125\<close>.
\<close>

theorem calc_velocity_distribution_mask_witness:
  "calc_velocity_distribution exact_ops sample_v0 \<lparr>ph_size = 32, ph_ndim = 1, ph_dim = 1\<rparr>
     [sample_particle] \<lparr>nx = 2, ny = 2, nz = 2, nppc = 1, mime = 25\<rparr> ((0, 1), (0, 1), (0, 1)) 64
   = Inr (single_count 64 48 48, single_count 64 48 48, single_count 64 48 48,
          hist_edges exact_ops 64, hist_edges exact_ops 64)
   \<and> hist_edges exact_ops 64 ! 48 \<le> 1 / 2 \<and> 1 / 2 < hist_edges exact_ops 64 ! 49"
proof -
  let ?pic = "\<lparr>nx = 2, ny = 2, nz = 2, nppc = 1, mime = 25 :: real\<rparr>"
  let ?keep = "\<lambda>p. case particle_xyz exact_ops sample_v0 (f64_sqrt exact_ops (mime ?pic)) p of
                   (x, y, z) \<Rightarrow> x \<in> {0..1} \<and> y \<in> {0..1} \<and> z \<in> {0..1 :: real}"
  have sq: "f64_sqrt exact_ops 25 = 5"
    by (simp add: exact_ops_def sqrt_25)
  have h: "0 < mime ?pic" "f64_sqrt exact_ops (mime ?pic) \<noteq> 0" "0 < (64 :: int)"
    "sorted (hist_edges exact_ops (nat 64))"
    using sorted_hist_edges_exact by (simp_all add: sq)
  have k: "?keep sample_particle"
    by (simp add: sq sample_particle_xyz)
  have u: "ptl_u sample_particle = (1 / 2, 1 / 2, 1 / 2)"
    by (simp add: sample_particle_def)
  have first: "hist_edges exact_ops 64 ! 0 \<le> 1 / 2"
    by (simp add: hist_edges_exact nth_append)
  from calc_velocity_distribution_mask [where keep = ?keep and pic_info = ?pic
      and ops = exact_ops
      and ?v0.0 = sample_v0 and ?x0.0 = 0 and ?x1.0 = 1 and ?y0.0 = 0 and ?y1.0 = 1
      and ?z0.0 = 0 and ?z1.0 = 1 and nbins = 64 and ptl = "[sample_particle]"
      and p = sample_particle and ph = "\<lparr>ph_size = 32, ph_ndim = 1, ph_dim = 1\<rparr>",
      OF h refl, THEN conjunct2]
  have "\<exists>j<64.
          calc_velocity_distribution exact_ops sample_v0 \<lparr>ph_size = 32, ph_ndim = 1, ph_dim = 1\<rparr>
            [sample_particle] ?pic ((0, 1), (0, 1), (0, 1)) 64
          = Inr (single_count 64 j j, single_count 64 j j, single_count 64 j j,
                 hist_edges exact_ops 64, hist_edges exact_ops 64)
          \<and> hist_edges exact_ops 64 ! j \<le> 1 / 2 \<and> 1 / 2 < hist_edges exact_ops 64 ! Suc j
          \<and> j = 48"
    using k u first by simp
  then show ?thesis by auto
qed

section \<open>Properties of the fits\<close>

lemma argmax_fold:
  fixes x :: real
  assumes "fold (\<lambda>y (best, bv, i). if bv < y then (i, y, Suc i) else (best, bv, Suc i))
             ys (0, x, 1) = (best, bv, i)"
  shows "i = Suc (length ys) \<and> best < i \<and> bv = (x # ys) ! best
       \<and> (\<forall>j<i. (x # ys) ! j \<le> bv) \<and> (\<forall>j<best. (x # ys) ! j < bv)"
  using assms
proof (induction ys arbitrary: best bv i rule: rev_induct)
  case Nil
  then show ?case by auto
next
  case (snoc y ys)
  obtain b0 v0 i0 where
    st: "fold (\<lambda>y (best, bv, i). if bv < y then (i, y, Suc i) else (best, bv, Suc i))
           ys (0, x, 1) = (b0, v0, i0)"
    by (cases "fold (\<lambda>y (best, bv, i). if bv < y then (i, y, Suc i) else (best, bv, Suc i))
           ys (0, x, 1)") auto
  from snoc.IH [OF st] have
    i0: "i0 = Suc (length ys)" and b0: "b0 < i0" and v0: "v0 = (x # ys) ! b0"
    and le: "\<forall>j<i0. (x # ys) ! j \<le> v0" and lt: "\<forall>j<b0. (x # ys) ! j < v0"
    by blast+
  have nth_old: "(x # ys @ [y]) ! j = (x # ys) ! j" if "j < i0" for j
    using that i0 nth_append [of "x # ys" "[y]" j] by simp
  have nth_new: "(x # ys @ [y]) ! i0 = y"
    using i0 nth_append_length [of "x # ys" y "[]"] by simp
  show ?case
  proof (cases "v0 < y")
    case True
    then have res: "best = i0" "bv = y" "i = Suc i0"
      using snoc.prems st by simp_all
    have "\<forall>j<Suc i0. (x # ys @ [y]) ! j \<le> y"
    proof (intro allI impI)
      fix j assume "j < Suc i0"
      then consider "j < i0" | "j = i0" by linarith
      then show "(x # ys @ [y]) ! j \<le> y"
      proof cases
        case 1
        then show ?thesis using le True nth_old by fastforce
      next
        case 2
        then show ?thesis using nth_new by simp
      qed
    qed
    moreover have "\<forall>j<i0. (x # ys @ [y]) ! j < y"
      using le True nth_old by fastforce
    ultimately show ?thesis
      using res i0 nth_new by simp
  next
    case False
    then have res: "best = b0" "bv = v0" "i = Suc i0"
      using snoc.prems st by simp_all
    have "\<forall>j<Suc i0. (x # ys @ [y]) ! j \<le> v0"
    proof (intro allI impI)
      fix j assume "j < Suc i0"
      then consider "j < i0" | "j = i0" by linarith
      then show "(x # ys @ [y]) ! j \<le> v0"
      proof cases
        case 1
        then show ?thesis using le nth_old by simp
      next
        case 2
        then show ?thesis using nth_new False by simp
      qed
    qed
    moreover have "\<forall>j<b0. (x # ys @ [y]) ! j < v0"
      using lt b0 nth_old by simp
    moreover have "(x # ys @ [y]) ! b0 = v0"
      using v0 b0 nth_old by simp
    ultimately show ?thesis
      using res i0 b0 by simp
  qed
qed

lemma np_argmax_first:
  assumes "xs \<noteq> []"
  shows "\<exists>k. np_argmax xs = Inr k \<and> first_argmax (length xs) (\<lambda>i. xs ! i) k"
proof -
  obtain x :: real and ys where xs: "xs = x # ys" using assms by (cases xs) auto
  obtain best bv i where
    st: "fold (\<lambda>y (best, bv, i). if bv < y then (i, y, Suc i) else (best, bv, Suc i))
           ys (0, x, 1) = (best, bv, i)"
    by (cases "fold (\<lambda>y (best, bv, i). if bv < y then (i, y, Suc i) else (best, bv, Suc i))
           ys (0, x, 1)") auto
  from argmax_fold [OF st] have "first_argmax (length xs) (\<lambda>i. xs ! i) best"
    unfolding first_argmax_def xs by (metis length_Cons)
  moreover have "np_argmax xs = Inr best"
    using st by (simp add: xs)
  ultimately show ?thesis by blast
qed

lemma kernel3:
  "map (\<lambda>x. f64_div ops x (real 3)) (replicate 3 1) =
     [f64_div ops 1 3, f64_div ops 1 3, f64_div ops 1 3]"
  by (simp add: numeral_3_eq_3)

lemma take_two: "2 \<le> length f \<Longrightarrow> take 2 f = [f ! 0, f ! 1]"
  by (auto simp: numeral_2_eq_2 Suc_le_length_iff)

lemma take_three_drop:
  "i + 3 \<le> length f \<Longrightarrow> take 3 (drop i f) = [f ! i, f ! Suc i, f ! Suc (Suc i)]"
  by (simp add: numeral_3_eq_3 take_Suc_conv_app_nth)

lemma drop_last_two:
  assumes "2 \<le> length f"
  shows "drop (length f - 2) f = [f ! (length f - 2), f ! (length f - 1)]"
proof -
  have "length f - 2 < length f" "Suc (length f - 2) = length f - 1" "length f - 1 < length f"
    "Suc (length f - 1) = length f"
    using assms by simp_all
  then show ?thesis
    using Cons_nth_drop_Suc [of "length f - 2" f] Cons_nth_drop_Suc [of "length f - 1" f]
    by simp
qed

lemma smoothed3_first:
  "3 \<le> length f \<Longrightarrow>
     smoothed3 ops f 0 = f64_dot ops (take 2 f) [f64_div ops 1 3, f64_div ops 1 3]"
  by (simp add: smoothed3_def neighbours_def take_two)

lemma smoothed3_inner:
  "i + 3 \<le> length f \<Longrightarrow>
     smoothed3 ops f (Suc i) =
       f64_dot ops (take 3 (drop i f)) [f64_div ops 1 3, f64_div ops 1 3, f64_div ops 1 3]"
  by (simp add: smoothed3_def neighbours_def take_three_drop)

lemma smoothed3_last:
  assumes "length f = Suc (Suc (Suc m))"
  shows "smoothed3 ops f (Suc (Suc m)) =
           f64_dot ops (drop (Suc m) f) [f64_div ops 1 3, f64_div ops 1 3]"
proof -
  have "drop (Suc m) f = [f ! Suc m, f ! Suc (Suc m)]"
    using assms drop_last_two [of f] by simp
  then show ?thesis
    using assms by (simp add: smoothed3_def neighbours_def)
qed

lemma np_convolve_same3:
  assumes "3 \<le> length f"
  shows "np_convolve_same ops f (map (\<lambda>x. f64_div ops x (real 3)) (replicate 3 1)) =
           Inr (map (smoothed3 ops f) [0..<length f])"
proof -
  let ?k = "f64_div ops 1 3"
  obtain m where m: "length f = Suc (Suc (Suc m))"
    using assms by (auto simp: numeral_3_eq_3 Suc_le_length_iff)
  have split: "[0..<Suc (Suc l)] = [0] @ map Suc [0..<l] @ [Suc l]" for l
  proof -
    have "[0..<Suc (Suc l)] = [0..<Suc l] @ [Suc l]" by simp
    moreover have "[0..<Suc l] = 0 # [Suc 0..<Suc l]" by (rule upt_conv_Cons) simp
    moreover have "[Suc 0..<Suc l] = map Suc [0..<l]" by (simp only: map_Suc_upt)
    ultimately show ?thesis by simp
  qed
  have mid: "map (\<lambda>i. f64_dot ops (take 3 (drop i f)) [?k, ?k, ?k]) [0..<Suc m] =
             map (\<lambda>i. smoothed3 ops f (Suc i)) [0..<Suc m]"
  proof (rule map_cong [OF refl])
    fix i assume "i \<in> set [0..<Suc m]"
    then have "i + 3 \<le> length f" using m by auto
    then show "f64_dot ops (take 3 (drop i f)) [?k, ?k, ?k] = smoothed3 ops f (Suc i)"
      by (simp only: smoothed3_inner)
  qed
  have half: "Suc (Suc (Suc 0)) div Suc (Suc 0) = Suc 0"
    by (simp add: numeral_2_eq_2 [symmetric] numeral_3_eq_3 [symmetric])
  have "f \<noteq> []" using m by auto
  then have "np_convolve_same ops f [?k, ?k, ?k] =
          Inr ([f64_dot ops (take 2 f) [?k, ?k]]
               @ map (\<lambda>i. f64_dot ops (take 3 (drop i f)) [?k, ?k, ?k]) [0..<Suc m]
               @ [f64_dot ops (drop (Suc m) f) [?k, ?k]])"
    by (simp add: np_convolve_same_def Let_def m numeral_2_eq_2 numeral_3_eq_3 half)
  also have "\<dots> = Inr ([smoothed3 ops f 0] @ map (\<lambda>i. smoothed3 ops f (Suc i)) [0..<Suc m]
                         @ [smoothed3 ops f (Suc (Suc m))])"
    unfolding mid by (simp only: smoothed3_first [OF assms] smoothed3_last [OF m])
  also have "\<dots> = Inr (map (smoothed3 ops f) [0..<Suc (Suc (Suc m))])"
    by (simp only: split [of "Suc m"] map_append list.map map_map comp_def)
  finally show ?thesis unfolding kernel3 m .
qed

lemma smoothed3_exact: "smoothed3 exact_ops f = moving_average3 f"
  by (rule ext)
     (simp add: smoothed3_def neighbours_def moving_average3_def exact_ops_def add_divide_distrib)

lemma py_slice_prefix:
  assumes "0 \<le> k"
  shows "py_slice xs 0 k = take (nat k) xs"
  using assms by (simp add: py_slice_def slice_bound_def Let_def min_def)

lemma np_getitem_nat:
  assumes "k < length xs"
  shows "np_getitem xs (int k) = Inr (xs ! k)"
  using assms by (simp add: np_getitem_def Let_def)

text \<open>
  Claim C4. For a flux array of at least three bins and an energy array of the same
  length, and whatever the rounding of the floating-point operations,
  \<^verbatim>\<open>fit_thermal_core\<close> takes as peak the first bin at which the smoothed flux, the
  computed inner product of the up to three neighbouring entries with weights one third,
  is largest; it fits the two-parameter model to the first \<open>peak + 10\<close> bins (all bins,
  if there are fewer) of the energy array and of the unsmoothed flux, and returns the
  fitted model evaluated on the whole energy array; an exception of the fit propagates.
  Without rounding the smoothed flux is the length-3 moving average.
\<close>

theorem fit_thermal_core_window:
  assumes "3 \<le> length f" and "length ene = length f"
  shows "\<exists>peak. first_argmax (length f) (smoothed3 ops f) peak
           \<and> fit_thermal_core ops curve_fit func_maxwellian ene f =
               ebind (curve_fit func_maxwellian (take (peak + 10) ene) (take (peak + 10) f))
                 (\<lambda>(a, b). Inr (func_maxwellian ene a b))
           \<and> smoothed3 exact_ops f = moving_average3 f"
proof -
  let ?fnew = "map (smoothed3 ops f) [0..<length f]"
  have conv: "np_convolve_same ops f (map (\<lambda>x. f64_div ops x (real 3)) (replicate 3 1)) = Inr ?fnew"
    using assms(1) by (rule np_convolve_same3)
  have "?fnew \<noteq> []" using assms(1) by auto
  from np_argmax_first [OF this] obtain peak where
    am: "np_argmax ?fnew = Inr peak"
    and fa: "first_argmax (length ?fnew) (\<lambda>i. ?fnew ! i) peak"
    by blast
  have peak: "peak < length f" using fa by (simp add: first_argmax_def)
  have first: "first_argmax (length f) (smoothed3 ops f) peak"
    using fa by (auto simp: first_argmax_def)
  have sl: "py_slice xs 0 (int peak + 10) = take (peak + 10) xs" for xs :: "real list"
    by (simp add: py_slice_prefix nat_add_distrib)
  have gi: "np_getitem ene (int peak + 10 - 10) = Inr (ene ! peak)"
    using peak assms(2) np_getitem_nat [of peak ene] by simp
  have "fit_thermal_core ops curve_fit func_maxwellian ene f =
          ebind (curve_fit func_maxwellian (take (peak + 10) ene) (take (peak + 10) f))
            (\<lambda>(a, b). Inr (func_maxwellian ene a b))"
    using conv am gi
    by (simp add: fit_thermal_core_def Let_def sl ebind_def split: sum.splits prod.splits)
  then show ?thesis using first smoothed3_exact by blast
qed

lemma first_argmax_unique:
  assumes "first_argmax n g k" and "first_argmax n g l"
  shows "k = l"
proof (rule ccontr)
  assume "k \<noteq> l"
  then consider "k < l" | "l < k" by linarith
  then show False
  proof cases
    case 1
    then have "g k < g l" using assms(2) by (simp add: first_argmax_def)
    moreover have "g l \<le> g k" using assms by (simp add: first_argmax_def)
    ultimately show False by simp
  next
    case 2
    then have "g l < g k" using assms(1) by (simp add: first_argmax_def)
    moreover have "g k \<le> g l" using assms by (simp add: first_argmax_def)
    ultimately show False by simp
  qed
qed

lemma sample_peak: "first_argmax 14 (moving_average3 ([0, 3, 3, 0] @ replicate 10 0)) 1"
  by code_simp

text \<open>
  For the flux \<open>[0, 3, 3, 0, 0, \<dots>, 0]\<close> of 14 bins the smoothed flux starts with
  \<open>1, 2, 2, 1\<close>: the largest value is taken at the bins 1 and 2, the peak is bin 1, and
  the fit receives the first 11 bins of both arrays. The fit of the example returns the
  lengths of its two data arrays. The exact operations of the example give the values of
  the double-precision ones: there the product of 3 and the rounded third is 1, and the
  sums \<open>0 + 1 + 1\<close> and \<open>1 + 1 + 0\<close> are 2 in either order.
\<close>

theorem fit_thermal_core_window_witness:
  "first_argmax 14 (smoothed3 exact_ops ([0, 3, 3, 0] @ replicate 10 0)) 1
   \<and> fit_thermal_core exact_ops (\<lambda>m x y. Inr (real (length x), real (length y)))
         (\<lambda>e a b. map (\<lambda>x. a * x + b) e) (replicate 14 1) ([0, 3, 3, 0] @ replicate 10 0)
       = Inr (replicate 14 22)"
proof -
  let ?f = "[0, 3, 3, 0] @ replicate 10 (0 :: real)"
  let ?ene = "replicate 14 (1 :: real)"
  have h: "3 \<le> length ?f" "length ?ene = length ?f"
    by simp_all
  from fit_thermal_core_window [OF h, of exact_ops
      "\<lambda>m x y. Inr (real (length x), real (length y))" "\<lambda>e a b. map (\<lambda>x. a * x + b) e"]
  obtain peak where
    p: "first_argmax (length ?f) (smoothed3 exact_ops ?f) peak"
    and r: "fit_thermal_core exact_ops (\<lambda>m x y. Inr (real (length x), real (length y)))
              (\<lambda>e a b. map (\<lambda>x. a * x + b) e) ?ene ?f
            = ebind (Inr (real (length (take (peak + 10) ?ene)), real (length (take (peak + 10) ?f))))
                (\<lambda>(a, b). Inr (map (\<lambda>x. a * x + b) ?ene))"
    and s: "smoothed3 exact_ops ?f = moving_average3 ?f"
    by blast
  have sp: "first_argmax 14 (smoothed3 exact_ops ?f) 1"
    unfolding s by (rule sample_peak)
  have "first_argmax 14 (smoothed3 exact_ops ?f) peak" using p by simp
  then have "peak = 1" using sp by (rule first_argmax_unique)
  with r have "fit_thermal_core exact_ops (\<lambda>m x y. Inr (real (length x), real (length y)))
              (\<lambda>e a b. map (\<lambda>x. a * x + b) e) ?ene ?f = Inr (replicate 14 22)"
    by (simp add: map_replicate)
  then show ?thesis using sp by blast
qed














section \<open>Properties of the energy-spectrum reader\<close>

lemma np_column_Array2:
  assumes "list_all (\<lambda>r. n \<le> length r) rows" and "k < n"
  shows "np_column (Some (Array2 rows)) k = Inr (map (\<lambda>r. r ! k) rows)"
proof -
  have "list_all (\<lambda>r. k < length r) rows"
    using assms by (auto simp: list_all_iff)
  then show ?thesis by (simp add: np_column_def)
qed

lemma get_energy_distribution_table:
  assumes "fs fname = Some content" and "genfromtxt content = Inr (Array2 rows)"
    and "list_all (\<lambda>r. 4 \<le> length r) rows"
  shows "get_energy_distribution genfromtxt fs fname fnorm =
           Inr (map (\<lambda>r. r ! 0) rows, map (\<lambda>r. r ! 1) rows, map (\<lambda>r. r ! 2) rows,
                map (\<lambda>r. r ! 3 / fnorm) rows)"
  using assms(1,2)
  by (simp add: get_energy_distribution_def read_spectrum_data_def comp_def
      np_column_Array2 [OF assms(3)])

text \<open>
  Claim C8, as the code has it. For a spectrum file that parses to a table of at least four
  columns and a nonzero \<open>fnorm\<close>, \<^verbatim>\<open>get_energy_distribution\<close> returns the log-bin flux
  (column 3) divided by \<open>fnorm\<close>; the linear-bin flux (column 1) and both energy columns
  are returned as stored, not normalized.
\<close>

theorem get_energy_distribution_normalizes_flog:
  assumes "fs fname = Some content" and "genfromtxt content = Inr (Array2 rows)"
    and "list_all (\<lambda>r. 4 \<le> length r) rows" and "fnorm \<noteq> 0"
  shows "get_energy_distribution genfromtxt fs fname fnorm =
           Inr (map (\<lambda>r. r ! 0) rows, map (\<lambda>r. r ! 1) rows, map (\<lambda>r. r ! 2) rows,
                map (\<lambda>r. r ! 3 / fnorm) rows)"
  using assms(1-3) by (rule get_energy_distribution_table)

theorem get_energy_distribution_normalizes_flog_witness:
  "get_energy_distribution (\<lambda>_. Inr (Array2 [[1, 4, 3, 8], [2, 6, 4, 10]])) (\<lambda>_. Some [1, 2])
     ''spectrum-e.10'' 2
   = Inr ([1, 2], [4, 6], [3, 4], [4, 5])"
proof -
  have "get_energy_distribution (\<lambda>_. Inr (Array2 [[1, 4, 3, 8], [2, 6, 4, 10]]))
          (\<lambda>_. Some [1, 2]) ''spectrum-e.10'' 2
        = Inr (map (\<lambda>r. r ! 0) [[1, 4, 3, 8], [2, 6, 4, 10]],
               map (\<lambda>r. r ! 1) [[1, 4, 3, 8], [2, 6, 4, 10]],
               map (\<lambda>r. r ! 2) [[1, 4, 3, 8], [2, 6, 4, 10]],
               map (\<lambda>r. r ! 3 / 2) [[1, 4, 3, 8], [2, 6, 4, 10]])"
    by (rule get_energy_distribution_normalizes_flog [where content = "[1, 2]"]) simp_all
  then show ?thesis by simp
qed

text \<open>
  The claim as stated fails: for the table with rows \<open>(1, 4, 3, 8)\<close> and \<open>(2, 6, 4, 10)\<close>
  and \<open>fnorm = 2\<close> the returned linear-bin flux is \<open>[4, 6]\<close>, the stored column, and not
  the stored column divided by \<open>fnorm\<close>.
\<close>

theorem get_energy_distribution_flin_counterexample:
  "get_energy_distribution (\<lambda>_. Inr (Array2 [[1, 4, 3, 8], [2, 6, 4, 10]])) (\<lambda>_. Some [1, 2])
     ''spectrum-e.10'' 2
   = Inr ([1, 2], [4, 6], [3, 4], [4, 5])
   \<and> [4, 6] \<noteq> [4 / 2, 6 / 2 :: real]"
  by (simp add: get_energy_distribution_def read_spectrum_data_def np_column_def)

text \<open>
  Claim C9, as the code has it. When the file named by \<open>fname\<close> cannot be opened,
  \<^verbatim>\<open>read_spectrum_data\<close> catches the open error and returns normally with \<^verbatim>\<open>None\<close>, no
  data; no exception leaves it. The caller \<^verbatim>\<open>get_energy_distribution\<close> then fails with
  a TypeError when it indexes that \<^verbatim>\<open>None\<close>.
\<close>

theorem read_spectrum_data_missing_file:
  assumes "fs fname = None"
  shows "read_spectrum_data genfromtxt fs fname = Inr None
       \<and> get_energy_distribution genfromtxt fs fname fnorm = Inl TypeError"
  using assms
  by (simp add: read_spectrum_data_def get_energy_distribution_def np_column_def)

theorem read_spectrum_data_missing_file_witness:
  "read_spectrum_data (\<lambda>_. Inr (Array1 [])) Map.empty ''../spectrum/spectrum-h.3'' = Inr None
   \<and> get_energy_distribution (\<lambda>_. Inr (Array1 [])) Map.empty ''../spectrum/spectrum-h.3'' 1
       = Inl TypeError"
  by (rule read_spectrum_data_missing_file) simp

text \<open>
  The claim as stated fails: on a file system without the file the call returns \<^verbatim>\<open>None\<close>
  instead of raising the open error.
\<close>

theorem read_spectrum_data_missing_file_counterexample:
  "read_spectrum_data (\<lambda>_. Inl ValueError) (\<lambda>_. None) ''../spectrum/spectrum-e.10'' = Inr None
   \<and> read_spectrum_data (\<lambda>_. Inl ValueError) (\<lambda>_. None) ''../spectrum/spectrum-e.10''
       \<noteq> Inl IOError"
  by (simp add: read_spectrum_data_def)

text \<open>
  Claim C10. \<^verbatim>\<open>read_energy_distribution\<close> calls \<^verbatim>\<open>get_energy_distribution\<close> on the
  species' spectrum file with the normalization factor \<open>nx * ny + nz * nppc\<close>; for a file
  that parses to a table of at least four columns the log-bin flux it returns is
  column 3 divided by that factor.
\<close>

theorem read_energy_distribution_norm:
  assumes "fs (spectrum_fname fpath species tframe) = Some content"
    and "genfromtxt content = Inr (Array2 rows)"
    and "list_all (\<lambda>r. 4 \<le> length r) rows"
  shows "read_energy_distribution genfromtxt fs species tframe pic_info fpath =
           ebind (get_energy_distribution genfromtxt fs (spectrum_fname fpath species tframe)
                    (real_of_int (nx pic_info * ny pic_info)
                       + real_of_int (nz pic_info) * nppc pic_info))
             (\<lambda>(el, fl, eg, fg).
                Inr \<lparr>fe_species = species, fe_elin = el, fe_flin = fl, fe_elog = eg, fe_flog = fg\<rparr>)
       \<and> read_energy_distribution genfromtxt fs species tframe pic_info fpath =
           Inr \<lparr>fe_species = species,
                fe_elin = map (\<lambda>r. r ! 0) rows,
                fe_flin = map (\<lambda>r. r ! 1) rows,
                fe_elog = map (\<lambda>r. r ! 2) rows,
                fe_flog = map (\<lambda>r. r ! 3 / (real_of_int (nx pic_info * ny pic_info)
                                           + real_of_int (nz pic_info) * nppc pic_info)) rows\<rparr>"
proof -
  have "get_energy_distribution genfromtxt fs (spectrum_fname fpath species tframe) fnorm =
          Inr (map (\<lambda>r. r ! 0) rows, map (\<lambda>r. r ! 1) rows, map (\<lambda>r. r ! 2) rows,
               map (\<lambda>r. r ! 3 / fnorm) rows)" for fnorm
    using assms by (rule get_energy_distribution_table)
  then show ?thesis
    by (simp add: read_energy_distribution_def Let_def)
qed

theorem read_energy_distribution_norm_witness:
  "read_energy_distribution (\<lambda>_. Inr (Array2 [[1, 4, 3, 52], [2, 6, 4, 26]]))
     (\<lambda>_. Some [1, 2]) ''e'' 10 \<lparr>nx = 2, ny = 3, nz = 4, nppc = 5, mime = 25\<rparr> ''../spectrum/''
   = Inr \<lparr>fe_species = ''e'', fe_elin = [1, 2], fe_flin = [4, 6], fe_elog = [3, 4], fe_flog = [2, 1]\<rparr>"
proof -
  have "list_all (\<lambda>r. 4 \<le> length r) [[1, 4, 3, 52], [2, 6, 4, 26 :: real]]"
    by simp
  from read_energy_distribution_norm [where content = "[1, 2]" and fs = "\<lambda>_. Some [1, 2]"
      and genfromtxt = "\<lambda>_. Inr (Array2 [[1, 4, 3, 52], [2, 6, 4, 26]])"
      and rows = "[[1, 4, 3, 52], [2, 6, 4, 26]]" and fpath = "''../spectrum/''"
      and species = "''e''" and tframe = 10
      and pic_info = "\<lparr>nx = 2, ny = 3, nz = 4, nppc = 5, mime = 25\<rparr>", OF refl refl this,
      THEN conjunct2]
  show ?thesis by simp
qed

end

